theory Spec2Isabelle
  imports Complex_Main "HOL-Library.Sublist" "HOL-Library.Multiset"
begin

section \<open>Numbers, strings and lists of the source\<close>

text \<open>
  Python's \<open>round(x, 2)\<close> rounds to the nearest multiple of \<open>0.01\<close>, a tie going to the
  even neighbour. It is computed on the exact value of its argument, as Python does, and
  its result is given by the decimal itself: the double the source holds is the one
  nearest to that decimal.
\<close>

definition round_half_even :: "real \<Rightarrow> int" where
  "round_half_even x =
     (let f = \<lfloor>x\<rfloor>; d = x - of_int f
      in if d < 1/2 then f
         else if 1/2 < d then f + 1
         else if even f then f else f + 1)"

definition round2 :: "real \<Rightarrow> real" where
  "round2 x = of_int (round_half_even (x * 100)) / 100"

text \<open>
  The floats of the live sources: a Python \<open>float\<close> is an IEEE double, that is a finite
  number (given by its exact value), an infinity or not-a-number. The sum of two
  doubles is not their exact sum but the double the machine returns for it: the
  addition is read from the world (\<open>float_add\<close>, below), and nothing is assumed of it.

  The order on doubles is the order of the numbers, with the infinities at the two
  ends; not-a-number is put below everything, so that \<open>x > c\<close> is false for it, as in
  Python. The source compares a double only in this form (\<open>cost > 0.001\<close>,
  \<open>cost > 0\<close>, \<open>total_cost > 0\<close>, \<open>month_to_date > 0\<close>), tests \<open>month_to_date == 0\<close>,
  and sorts costs that have passed \<open>cost > 0.001\<close>, none of which is not-a-number.

  The simulated source is computed on exact reals: its costs are products of the
  constants of its table and of factors between 0.9 and 1.1, rounded to 2 decimals.
\<close>

datatype double = Finite real | PosInf | NegInf | NaN

instantiation double :: linorder
begin

definition less_eq_double :: "double \<Rightarrow> double \<Rightarrow> bool" where
  "less_eq_double x y =
     (case x of
        NaN \<Rightarrow> True
      | NegInf \<Rightarrow> y \<noteq> NaN
      | Finite a \<Rightarrow> (case y of Finite b \<Rightarrow> a \<le> b | PosInf \<Rightarrow> True | NegInf \<Rightarrow> False | NaN \<Rightarrow> False)
      | PosInf \<Rightarrow> y = PosInf)"

definition less_double :: "double \<Rightarrow> double \<Rightarrow> bool" where
  "less_double x y = (x \<le> y \<and> \<not> y \<le> x)"

instance
  by standard (auto simp: less_eq_double_def less_double_def split: double.splits)

end

text \<open>\<open>round(x, 2)\<close> on a double: an infinity and not-a-number are returned as they are.\<close>

fun round2d :: "double \<Rightarrow> double" where
  "round2d (Finite x) = Finite (round2 x)"
| "round2d PosInf = PosInf"
| "round2d NegInf = NegInf"
| "round2d NaN = NaN"

text \<open>
  Python's slice \<open>xs[:n]\<close>: the first \<open>n\<close> elements when \<open>n\<close> is not negative, all but
  the last \<open>-n\<close> elements when it is.
\<close>

definition slice_to :: "'a list \<Rightarrow> int \<Rightarrow> 'a list" where
  "slice_to xs n =
     (if 0 \<le> n then take (nat n) xs else take (length xs - nat (- n)) xs)"

text \<open>
  Python's \<open>sorted(xs, key=k, reverse=True)\<close>: the list is reversed, sorted stably in
  ascending order of the key, and reversed again, so that elements with equal keys keep
  the order they had in \<open>xs\<close>.
\<close>

definition sorted_reverse :: "('a \<Rightarrow> 'k::linorder) \<Rightarrow> 'a list \<Rightarrow> 'a list" where
  "sorted_reverse k xs = rev (sort_key k (rev xs))"

text \<open>
  Strings are lists of characters. \<open>str.lower()\<close> is modelled on the ASCII letters;
  every other character is left as it is.
\<close>

definition lower_char :: "char \<Rightarrow> char" where
  "lower_char c =
     (case map_of (zip ''ABCDEFGHIJKLMNOPQRSTUVWXYZ'' ''abcdefghijklmnopqrstuvwxyz'') c of
        Some l \<Rightarrow> l
      | None \<Rightarrow> c)"

definition lower :: "string \<Rightarrow> string" where
  "lower s = map lower_char s"

text \<open>
  \<open>s.replace(old, new)\<close> scans \<open>s\<close> from the left; wherever \<open>old\<close> starts, \<open>new\<close> is
  written and the scan goes on after the occurrence. With an empty \<open>old\<close>, Python writes
  \<open>new\<close> before every character and at the end.
\<close>

fun replace_from :: "string \<Rightarrow> string \<Rightarrow> string \<Rightarrow> string" where
  "replace_from old new [] = []"
| "replace_from old new (c # cs) =
     (if old \<noteq> [] \<and> prefix old (c # cs)
      then new @ replace_from old new (drop (length old - 1) cs)
      else c # replace_from old new cs)"

definition replace :: "string \<Rightarrow> string \<Rightarrow> string \<Rightarrow> string" where
  "replace s old new =
     (if old = [] then new @ concat (map (\<lambda>c. c # new) s) else replace_from old new s)"

text \<open>\<open>sub in s\<close> on strings: \<open>sub\<close> occurs somewhere in \<open>s\<close>.\<close>

fun contains :: "string \<Rightarrow> string \<Rightarrow> bool" where
  "contains sub [] = (sub = [])"
| "contains sub (c # cs) = (prefix sub (c # cs) \<or> contains sub cs)"

section \<open>Data model\<close>

text \<open>
  \<open>CostData\<close>, the snapshot every source returns. An entry of \<open>top_services\<close> is
  (service name, cost, activity count); \<open>last_updated\<close> is the clock reading. The type
  \<open>'n\<close> of its numbers is \<open>double\<close> for the live sources and \<open>real\<close> for the simulated
  one.
\<close>

record 'n CostData =
  month_to_date :: 'n
  top_services :: "(string \<times> 'n \<times> int) list"
  last_updated :: nat

text \<open>
  Exceptions. The handlers of the source tell \<open>ImportError\<close> from every other
  \<open>Exception\<close>, and read the message \<open>str(e)\<close>.
\<close>

datatype exn = ImportError string | Exception string

fun str :: "exn \<Rightarrow> string" where
  "str (ImportError msg) = msg"
| "str (Exception msg) = msg"

text \<open>
  The responses of the provider. A data point of the billing metric has a time stamp and
  the \<open>Maximum\<close> statistic. A group of a cost-and-usage result has its \<open>Keys\<close> and the
  amount \<open>group['Metrics']['UnblendedCost']['Amount']\<close>, taken as the number
  \<open>float(...)\<close> reads from it. A cost-and-usage response is the list
  \<open>response.get('ResultsByTime', [])\<close>, each result being its list
  \<open>result.get('Groups', [])\<close>.
\<close>

record datapoint =
  Timestamp :: int
  Maximum :: double

record cost_group =
  Keys :: "string list"
  Amount :: double

type_synonym ce_response = "cost_group list list"

text \<open>A calendar date (year, month, day); \<open>isoformat()\<close> is not modelled.\<close>

type_synonym date = "nat \<times> nat \<times> nat"

record ce_query =
  period_start :: date
  period_end :: date
  group_by :: "string list"

text \<open>
  Everything outside the program that a run reads:
  \<^item> whether \<open>import boto3\<close> succeeds;
  \<open>boto3.client(name)\<close>, which returns or raises;
  \<^item> the three API calls, each returning a response or raising:
    \<open>get_metric_statistics\<close> by its \<open>ServiceName\<close> dimension (\<open>None\<close>: the
    aggregate query), \<open>get_cost_and_usage\<close> by its query, \<open>lookup_events\<close> by the
    number of the call within one run of \<open>fetch_service_activity\<close> and the event source
    asked for, its response being the number of events it lists
    (\<open>len(response.get('Events', []))\<close>);
  \<^item> the calendar and the clock;
  \<^item> the machine's addition of two doubles, \<open>x + y\<close>;
  \<^item> the standard output: what \<open>print\<close> raises for a line with one of the emoji
    \<open>main\<close> prints (U+2705, U+26A0), if it raises: \<open>UnicodeEncodeError\<close> when the
    encoding of the output has no such character, nothing on a UTF-8 output;
  \<^item> the random numbers: what the \<open>i\<close>-th call of \<open>random.uniform(0.9, 1.1)\<close> and the
    \<open>i\<close>-th call of \<open>random.randint(lo, hi)\<close> of a run return.
\<close>

record world =
  boto3_installed :: bool
  client :: "string \<Rightarrow> exn option"
  get_metric_statistics :: "string option \<Rightarrow> exn + datapoint list"
  get_cost_and_usage :: "ce_query \<Rightarrow> exn + ce_response"
  lookup_events :: "nat \<Rightarrow> string \<Rightarrow> exn + nat"
  today :: date
  now :: nat
  float_add :: "double \<Rightarrow> double \<Rightarrow> double"
  emoji_print :: "exn option"
  random_uniform :: "nat \<Rightarrow> real"
  random_randint :: "nat \<Rightarrow> int \<Rightarrow> int \<Rightarrow> int"

text \<open>
  A Python \<open>dict\<close> from service names to numbers, in insertion order, as an association
  list with one pair for each key. \<open>dict_add add d k v\<close> is
  \<^verbatim>\<open>
      if k not in d:
          d[k] = 0.0
      d[k] += v
  \<close>
  with \<open>add\<close> the addition of doubles.
\<close>

fun dict_add ::
    "(double \<Rightarrow> double \<Rightarrow> double) \<Rightarrow> (string \<times> double) list \<Rightarrow> string \<Rightarrow> double
       \<Rightarrow> (string \<times> double) list" where
  "dict_add add [] k v = [(k, add (Finite 0) v)]"
| "dict_add add ((k', v') # d) k v =
     (if k' = k then (k', add v' v) # d else (k', v') # dict_add add d k v)"

section \<open>The ranker\<close>

text \<open>
  \<^verbatim>\<open>
  def get_top_services(services, limit=10):
      sorted_services = sorted(services, key=lambda x: x[1], reverse=True)
      return sorted_services[:limit]
  \<close>
  The cost may be of any linearly ordered type here; the live sources call it at
  \<open>double\<close>, with costs that are not not-a-number, the simulated source at \<open>real\<close>.
\<close>

definition get_top_services :: "(string \<times> 'c::linorder) list \<Rightarrow> int \<Rightarrow> (string \<times> 'c) list" where
  "get_top_services services limit =
     (let sorted_services = sorted_reverse snd services
      in slice_to sorted_services limit)"

definition default_limit :: int where
  "default_limit = 10"

text \<open>A list of entries is in descending order of cost (equal costs allowed).\<close>

definition descending :: "(string \<times> 'c::linorder) list \<Rightarrow> bool" where
  "descending xs = sorted_wrt (\<lambda>a b. snd b \<le> snd a) xs"

text \<open>The costs of the list go strictly down: no two entries have the same cost.\<close>

definition strictly_descending :: "(string \<times> 'c::linorder) list \<Rightarrow> bool" where
  "strictly_descending xs = sorted_wrt (\<lambda>a b. snd b < snd a) xs"

section \<open>The activity augmenter\<close>

definition SERVICE_TO_EVENT_SOURCE :: "(string \<times> string) list" where
  "SERVICE_TO_EVENT_SOURCE =
     [(''Amazon EC2'', ''ec2.amazonaws.com''),
      (''Amazon S3'', ''s3.amazonaws.com''),
      (''Amazon RDS'', ''rds.amazonaws.com''),
      (''AWS Lambda'', ''lambda.amazonaws.com''),
      (''Amazon CloudFront'', ''cloudfront.amazonaws.com''),
      (''Amazon DynamoDB'', ''dynamodb.amazonaws.com''),
      (''Amazon ECS'', ''ecs.amazonaws.com''),
      (''Amazon SQS'', ''sqs.amazonaws.com''),
      (''Amazon SNS'', ''sns.amazonaws.com''),
      (''AWS Fargate'', ''ecs.amazonaws.com''),
      (''Amazon EKS'', ''eks.amazonaws.com''),
      (''Amazon ElastiCache'', ''elasticache.amazonaws.com''),
      (''Amazon Redshift'', ''redshift.amazonaws.com''),
      (''AWS Glue'', ''glue.amazonaws.com''),
      (''Amazon CloudWatch'', ''monitoring.amazonaws.com''),
      (''AWS Key Management Service'', ''kms.amazonaws.com''),
      (''Amazon Route 53'', ''route53.amazonaws.com''),
      (''Amazon API Gateway'', ''apigateway.amazonaws.com''),
      (''AWS Secrets Manager'', ''secretsmanager.amazonaws.com''),
      (''Amazon Elastic Load Balancing'', ''elasticloadbalancing.amazonaws.com'')]"

text \<open>
  The event source \<open>fetch_service_activity\<close> asks for, for one service name:
  \<^verbatim>\<open>
      event_source = SERVICE_TO_EVENT_SOURCE.get(service_name)
      if not event_source:
          simplified = service_name.lower().replace("amazon ", "").replace("aws ", "").replace(" ", "")
          event_source = f"{simplified}.amazonaws.com"
  \<close>
  \<open>not event_source\<close> holds for \<open>None\<close> and for the empty string.
\<close>

definition derived_event_source :: "string \<Rightarrow> string" where
  "derived_event_source service_name =
     (let simplified =
            replace (replace (replace (lower service_name) ''amazon '' []) ''aws '' []) '' '' []
      in simplified @ ''.amazonaws.com'')"

definition event_source_of :: "string \<Rightarrow> string" where
  "event_source_of service_name =
     (case map_of SERVICE_TO_EVENT_SOURCE service_name of
        None \<Rightarrow> derived_event_source service_name
      | Some event_source \<Rightarrow>
          if event_source = [] then derived_event_source service_name else event_source)"

text \<open>
  The loop over the service names. The inner \<open>try\<close> catches every exception of the
  lookup and stores 0 for that name; the dictionary \<open>activity\<close> is a map.
\<close>

fun activity_loop :: "world \<Rightarrow> nat \<Rightarrow> string list \<Rightarrow> (string \<rightharpoonup> int) \<Rightarrow> (string \<rightharpoonup> int)" where
  "activity_loop w i [] activity = activity"
| "activity_loop w i (service_name # rest) activity =
     (case lookup_events w i (event_source_of service_name) of
        Inr events \<Rightarrow> activity_loop w (Suc i) rest (activity(service_name \<mapsto> int events))
      | Inl e \<Rightarrow> activity_loop w (Suc i) rest (activity(service_name \<mapsto> 0)))"

definition import_error :: exn where
  "import_error = ImportError ''No module named boto3''"

definition index_error :: exn where
  "index_error = Exception ''list index out of range''"

text \<open>The body of the outer \<open>try\<close>: the import, the client, the loop.\<close>

definition fetch_service_activity_try :: "world \<Rightarrow> string list \<Rightarrow> exn + (string \<rightharpoonup> int)" where
  "fetch_service_activity_try w service_names =
     (if \<not> boto3_installed w then Inl import_error
      else case client w ''cloudtrail'' of
             Some e \<Rightarrow> Inl e
           | None \<Rightarrow> Inr (activity_loop w 0 service_names Map.empty))"

text \<open>\<open>{name: 0 for name in service_names}\<close>\<close>

definition zero_activity :: "string list \<Rightarrow> (string \<rightharpoonup> int)" where
  "zero_activity service_names = map_of (map (\<lambda>name. (name, 0)) service_names)"

text \<open>
  The two handlers, \<open>except ImportError\<close> and \<open>except Exception\<close>, return the same
  dictionary of zeros.
\<close>

definition fetch_service_activity :: "world \<Rightarrow> string list \<Rightarrow> (string \<rightharpoonup> int)" where
  "fetch_service_activity w service_names =
     (case fetch_service_activity_try w service_names of
        Inr activity \<Rightarrow> activity
      | Inl (ImportError msg) \<Rightarrow> zero_activity service_names
      | Inl (Exception msg) \<Rightarrow> zero_activity service_names)"

text \<open>
  \<open>[(name, cost, activity_data.get(name, 0)) for name, cost in top_services]\<close>, the last
  step of the live sources.
\<close>

definition with_activity :: "(string \<rightharpoonup> int) \<Rightarrow> (string \<times> 'n) list \<Rightarrow> (string \<times> 'n \<times> int) list" where
  "with_activity activity_data ranked =
     map (\<lambda>(name, cost). (name, cost, case activity_data name of Some a \<Rightarrow> a | None \<Rightarrow> 0)) ranked"

section \<open>The simulated source\<close>

definition simulated_service_costs :: "(string \<times> real) list" where
  "simulated_service_costs =
     [(''AWS WAF'', 148/100),
      (''AWS Amplify'', 34/100),
      (''AWS Cost Explorer'', 24/100),
      (''Amazon EC2 Container Registry (ECR)'', 4/100),
      (''Amazon Bedrock AgentCore'', 1/100),
      (''Amazon S3'', 1/100),
      (''Amazon CloudWatch'', 1/100)]"

definition activity_ranges :: "(string \<times> int \<times> int) list" where
  "activity_ranges =
     [(''AWS WAF'', (50, 200)),
      (''AWS Amplify'', (10, 50)),
      (''AWS Cost Explorer'', (5, 20)),
      (''Amazon EC2 Container Registry (ECR)'', (20, 80)),
      (''Amazon Bedrock AgentCore'', (5, 30)),
      (''Amazon S3'', (100, 500)),
      (''Amazon CloudWatch'', (200, 800))]"

text \<open>
  \<^verbatim>\<open>
      for service, base_cost in service_costs:
          variation = random.uniform(0.9, 1.1)
          cost = round(base_cost * variation, 2)
          randomized_costs.append((service, cost))
  \<close>
  The \<open>i\<close>-th pass draws the \<open>i\<close>-th variation of the run.
\<close>

fun randomize :: "world \<Rightarrow> nat \<Rightarrow> (string \<times> real) list \<Rightarrow> (string \<times> real) list" where
  "randomize w i [] = []"
| "randomize w i ((service, base_cost) # rest) =
     (let variation = random_uniform w i;
          cost = round2 (base_cost * variation)
      in (service, cost) # randomize w (Suc i) rest)"

text \<open>
  \<^verbatim>\<open>
      [(name, cost, random.randint(*activity_ranges.get(name, (0, 50))))
       for name, cost in top_services]
  \<close>
\<close>

fun simulated_activity :: "world \<Rightarrow> nat \<Rightarrow> (string \<times> real) list \<Rightarrow> (string \<times> real \<times> int) list" where
  "simulated_activity w i [] = []"
| "simulated_activity w i ((name, cost) # rest) =
     (let (lo, hi) = (case map_of activity_ranges name of Some r \<Rightarrow> r | None \<Rightarrow> (0, 50))
      in (name, cost, random_randint w i lo hi) # simulated_activity w (Suc i) rest)"

definition fetch_simulated_costs :: "world \<Rightarrow> real CostData" where
  "fetch_simulated_costs w =
     (let randomized_costs = randomize w 0 simulated_service_costs;
          mtd = sum_list (map snd randomized_costs);
          ranked = get_top_services randomized_costs default_limit;
          top_services_with_activity = simulated_activity w 0 ranked
      in \<lparr>month_to_date = round2 mtd,
          top_services = top_services_with_activity,
          last_updated = now w\<rparr>)"

section \<open>The usage ledger\<close>

text \<open>
  The two \<open>except\<close> clauses that close the three live sources: an \<open>ImportError\<close>
  becomes the request to install boto3, an exception whose message mentions credentials
  becomes the credentials message, any other exception is raised again as it is.
\<close>

definition boto3_required_message :: string where
  "boto3_required_message = ''boto3 is required for AWS integration. Install with: pip install boto3''"

definition credentials_message :: string where
  "credentials_message =
     ''AWS credentials not found. Please configure credentials:\<newline>'' @
     ''1. Set AWS_ACCESS_KEY_ID and AWS_SECRET_ACCESS_KEY environment variables, or\<newline>'' @
     ''2. Configure ~/.aws/credentials file, or\<newline>'' @
     ''3. Use AWS IAM role if running on EC2''"

fun handle_aws_error :: "exn \<Rightarrow> exn" where
  "handle_aws_error (ImportError msg) = Exception boto3_required_message"
| "handle_aws_error (Exception error_msg) =
     (if contains ''credentials'' (lower error_msg) \<or> contains ''NoCredentialsError'' error_msg
      then Exception credentials_message
      else Exception error_msg)"

text \<open>\<open>today.replace(day=1)\<close>\<close>

fun first_of_month :: "date \<Rightarrow> date" where
  "first_of_month (y, m, d) = (y, m, 1)"

text \<open>
  The aggregation by service of \<open>fetch_cost_explorer_services\<close> and
  \<open>fetch_november_costs\<close>:
  \<^verbatim>\<open>
      for result in response.get('ResultsByTime', []):
          for group in result.get('Groups', []):
              service_name = group['Keys'][0]
              cost = float(group['Metrics']['UnblendedCost']['Amount'])
              if service_name not in service_cost_map:
                  service_cost_map[service_name] = 0.0
              service_cost_map[service_name] += cost
  \<close>
  \<open>group['Keys'][0]\<close> raises \<open>IndexError\<close> on an empty list of keys.
\<close>

fun service_groups_loop ::
    "world \<Rightarrow> cost_group list \<Rightarrow> (string \<times> double) list \<Rightarrow> exn + (string \<times> double) list" where
  "service_groups_loop w [] service_cost_map = Inr service_cost_map"
| "service_groups_loop w (g # groups) service_cost_map =
     (case Keys g of
        [] \<Rightarrow> Inl index_error
      | service_name # ks \<Rightarrow>
          service_groups_loop w groups
            (dict_add (float_add w) service_cost_map service_name (Amount g)))"

fun service_results_loop ::
    "world \<Rightarrow> ce_response \<Rightarrow> (string \<times> double) list \<Rightarrow> exn + (string \<times> double) list" where
  "service_results_loop w [] service_cost_map = Inr service_cost_map"
| "service_results_loop w (result # results) service_cost_map =
     (case service_groups_loop w result service_cost_map of
        Inl e \<Rightarrow> Inl e
      | Inr service_cost_map' \<Rightarrow> service_results_loop w results service_cost_map')"

text \<open>
  \<^verbatim>\<open>
      for service_name, cost in service_cost_map.items():
          if cost > 0.001:
              service_costs.append((service_name, round(cost, 2)))
  \<close>
\<close>

text \<open>
  The literal \<open>0.001\<close> of the source is the double nearest to one thousandth, which is
  \<open>1152921504606847 / 2 ^ 60\<close>, a little more than one thousandth.
\<close>

definition negligible_threshold :: double where
  "negligible_threshold = Finite (1152921504606847 / 2 ^ 60)"

fun charged_services :: "(string \<times> double) list \<Rightarrow> (string \<times> double) list" where
  "charged_services [] = []"
| "charged_services ((service_name, cost) # items) =
     (if cost > negligible_threshold
      then (service_name, round2d cost) # charged_services items
      else charged_services items)"

definition fetch_cost_explorer_services_try ::
    "world \<Rightarrow> date option \<Rightarrow> date option \<Rightarrow> exn + (string \<times> double) list" where
  "fetch_cost_explorer_services_try w start_date end_date =
     (if \<not> boto3_installed w then Inl import_error
      else case client w ''ce'' of
        Some e \<Rightarrow> Inl e
      | None \<Rightarrow>
          let (start_date', end_date') =
                (case (start_date, end_date) of
                   (Some s, Some e) \<Rightarrow> (s, e)
                 | _ \<Rightarrow> (first_of_month (today w), today w))
          in case get_cost_and_usage w
                    \<lparr>period_start = start_date', period_end = end_date', group_by = [''SERVICE'']\<rparr> of
               Inl e \<Rightarrow> Inl e
             | Inr response \<Rightarrow>
                 (case service_results_loop w response [] of
                    Inl e \<Rightarrow> Inl e
                  | Inr service_cost_map \<Rightarrow> Inr (charged_services service_cost_map)))"

text \<open>\<open>except Exception: return []\<close>\<close>

definition fetch_cost_explorer_services :: "world \<Rightarrow> date option \<Rightarrow> date option \<Rightarrow> (string \<times> double) list" where
  "fetch_cost_explorer_services w start_date end_date =
     (case fetch_cost_explorer_services_try w start_date end_date of
        Inl e \<Rightarrow> []
      | Inr service_costs \<Rightarrow> service_costs)"

section \<open>The aggregate billing metric\<close>

definition services_to_check :: "string list" where
  "services_to_check =
     [''AmazonEC2'', ''AmazonS3'', ''AmazonRDS'', ''AWSLambda'',
      ''AmazonCloudFront'', ''AmazonDynamoDB'', ''AmazonECS'',
      ''AmazonSQS'', ''AmazonSNS'', ''AWSDataTransfer'',
      ''AmazonCloudWatch'', ''AWSWAF'', ''AWSAmplify'',
      ''AWSCostExplorer'', ''AmazonECR'', ''AmazonBedrock'',
      ''AWSSecretsManager'', ''AWSKeyManagementService'',
      ''AmazonAPIGateway'', ''AmazonCognito'', ''AmazonTextract'',
      ''AmazonRekognition'', ''AmazonComprehend'', ''AWSGlue'']"

text \<open>
  \<open>sorted(response['Datapoints'], key=lambda x: x['Timestamp'], reverse=True)[0]['Maximum']\<close>,
  which the source reads only from a list that is not empty (\<open>None\<close> here when it is).
\<close>

definition latest_maximum :: "datapoint list \<Rightarrow> double option" where
  "latest_maximum datapoints =
     (case sorted_reverse Timestamp datapoints of
        [] \<Rightarrow> None
      | p # ps \<Rightarrow> Some (Maximum p))"

definition readable_name :: "string \<Rightarrow> string" where
  "readable_name service = replace (replace service ''Amazon'' ''Amazon '') ''AWS'' ''AWS ''"

text \<open>
  The loop over the services to check. \<open>except Exception: pass\<close> leaves
  \<open>service_costs\<close> as it was when the query of a service raises.
\<close>

fun billing_services_loop :: "world \<Rightarrow> string list \<Rightarrow> (string \<times> double) list \<Rightarrow> (string \<times> double) list" where
  "billing_services_loop w [] service_costs = service_costs"
| "billing_services_loop w (service # rest) service_costs =
     (case get_metric_statistics w (Some service) of
        Inl e \<Rightarrow> billing_services_loop w rest service_costs
      | Inr datapoints \<Rightarrow>
          (case latest_maximum datapoints of
             None \<Rightarrow> billing_services_loop w rest service_costs
           | Some cost \<Rightarrow>
               if cost > negligible_threshold
               then billing_services_loop w rest
                      (service_costs @ [(readable_name service, round2d cost)])
               else billing_services_loop w rest service_costs))"

definition fetch_cloudwatch_billing_metrics_try :: "world \<Rightarrow> exn + double CostData" where
  "fetch_cloudwatch_billing_metrics_try w =
     (if \<not> boto3_installed w then Inl import_error
      else case client w ''cloudwatch'' of
        Some e \<Rightarrow> Inl e
      | None \<Rightarrow>
          (case get_metric_statistics w None of
             Inl e \<Rightarrow> Inl e
           | Inr datapoints \<Rightarrow>
               let total_cost = (case latest_maximum datapoints of None \<Rightarrow> Finite 0 | Some m \<Rightarrow> m);
                   service_costs = billing_services_loop w services_to_check [];
                   service_costs' =
                     (if service_costs = [] \<and> total_cost > Finite 0
                      then fetch_cost_explorer_services w None None
                      else service_costs);
                   ranked = get_top_services service_costs' default_limit;
                   service_names = map fst ranked;
                   activity_data = fetch_service_activity w service_names
               in Inr \<lparr>month_to_date = round2d total_cost,
                       top_services = with_activity activity_data ranked,
                       last_updated = now w\<rparr>))"

definition fetch_cloudwatch_billing_metrics :: "world \<Rightarrow> exn + double CostData" where
  "fetch_cloudwatch_billing_metrics w =
     (case fetch_cloudwatch_billing_metrics_try w of
        Inl e \<Rightarrow> Inl (handle_aws_error e)
      | Inr cost_data \<Rightarrow> Inr cost_data)"

section \<open>The historical ledger\<close>

text \<open>
  \<^verbatim>\<open>
      for service_name, cost in service_cost_map.items():
          if cost > 0.001:
              service_costs.append((service_name, round(cost, 2)))
              total_cost += cost
  \<close>
\<close>

fun charged_total :: "world \<Rightarrow> (string \<times> double) list \<Rightarrow> double \<Rightarrow> double" where
  "charged_total w [] total_cost = total_cost"
| "charged_total w ((service_name, cost) # items) total_cost =
     (if cost > negligible_threshold
      then charged_total w items (float_add w total_cost cost)
      else charged_total w items total_cost)"

definition fetch_november_costs_try :: "world \<Rightarrow> exn + double CostData" where
  "fetch_november_costs_try w =
     (if \<not> boto3_installed w then Inl import_error
      else case client w ''ce'' of
        Some e \<Rightarrow> Inl e
      | None \<Rightarrow>
          (case get_cost_and_usage w
                  \<lparr>period_start = (2025, 11, 1), period_end = (2025, 12, 1), group_by = [''SERVICE'']\<rparr> of
             Inl e \<Rightarrow> Inl e
           | Inr response \<Rightarrow>
               (case service_results_loop w response [] of
                  Inl e \<Rightarrow> Inl e
                | Inr service_cost_map \<Rightarrow>
                    let service_costs = charged_services service_cost_map;
                        total_cost = charged_total w service_cost_map (Finite 0);
                        ranked = get_top_services service_costs default_limit;
                        service_names = map fst ranked;
                        activity_data = zero_activity service_names
                    in Inr \<lparr>month_to_date = round2d total_cost,
                            top_services = with_activity activity_data ranked,
                            last_updated = now w\<rparr>)))"

definition fetch_november_costs :: "world \<Rightarrow> exn + double CostData" where
  "fetch_november_costs w =
     (case fetch_november_costs_try w of
        Inl e \<Rightarrow> Inl (handle_aws_error e)
      | Inr cost_data \<Rightarrow> Inr cost_data)"

section \<open>Usage before credits\<close>

text \<open>
  The first pass, over the response grouped by record type:
  \<^verbatim>\<open>
      for result in response.get('ResultsByTime', []):
          for group in result.get('Groups', []):
              record_type = group['Keys'][0]
              cost = float(group['Metrics']['UnblendedCost']['Amount'])
              if record_type == 'Usage':
                  usage_cost += cost
              elif record_type == 'Credit':
                  credit_amount += cost
  \<close>
  The state of the loop is the pair (\<open>usage_cost\<close>, \<open>credit_amount\<close>); \<open>+=\<close> is the
  addition of doubles.
\<close>

fun record_groups_loop ::
    "world \<Rightarrow> cost_group list \<Rightarrow> double \<times> double \<Rightarrow> exn + double \<times> double" where
  "record_groups_loop w [] (usage_cost, credit_amount) = Inr (usage_cost, credit_amount)"
| "record_groups_loop w (g # groups) (usage_cost, credit_amount) =
     (case Keys g of
        [] \<Rightarrow> Inl index_error
      | record_type # ks \<Rightarrow>
          if record_type = ''Usage''
          then record_groups_loop w groups (float_add w usage_cost (Amount g), credit_amount)
          else if record_type = ''Credit''
          then record_groups_loop w groups (usage_cost, float_add w credit_amount (Amount g))
          else record_groups_loop w groups (usage_cost, credit_amount))"

fun record_results_loop ::
    "world \<Rightarrow> ce_response \<Rightarrow> double \<times> double \<Rightarrow> exn + double \<times> double" where
  "record_results_loop w [] totals = Inr totals"
| "record_results_loop w (result # results) totals =
     (case record_groups_loop w result totals of
        Inl e \<Rightarrow> Inl e
      | Inr totals' \<Rightarrow> record_results_loop w results totals')"

text \<open>
  The second pass, over the response grouped by service and record type:
  \<^verbatim>\<open>
      for result in response.get('ResultsByTime', []):
          for group in result.get('Groups', []):
              keys = group['Keys']
              if len(keys) >= 2:
                  service_name = keys[0]
                  record_type = keys[1]
                  cost = float(group['Metrics']['UnblendedCost']['Amount'])
                  if record_type == 'Usage' and cost > 0:
                      if service_name not in service_cost_map:
                          service_cost_map[service_name] = 0.0
                      service_cost_map[service_name] += cost
  \<close>
\<close>

fun usage_groups_loop ::
    "world \<Rightarrow> cost_group list \<Rightarrow> (string \<times> double) list \<Rightarrow> (string \<times> double) list" where
  "usage_groups_loop w [] service_cost_map = service_cost_map"
| "usage_groups_loop w (g # groups) service_cost_map =
     (case Keys g of
        service_name # record_type # ks \<Rightarrow>
          if record_type = ''Usage'' \<and> Amount g > Finite 0
          then usage_groups_loop w groups
                 (dict_add (float_add w) service_cost_map service_name (Amount g))
          else usage_groups_loop w groups service_cost_map
      | _ \<Rightarrow> usage_groups_loop w groups service_cost_map)"

fun usage_results_loop ::
    "world \<Rightarrow> ce_response \<Rightarrow> (string \<times> double) list \<Rightarrow> (string \<times> double) list" where
  "usage_results_loop w [] service_cost_map = service_cost_map"
| "usage_results_loop w (result # results) service_cost_map =
     usage_results_loop w results (usage_groups_loop w result service_cost_map)"

definition fetch_aws_costs_before_credits_try :: "world \<Rightarrow> exn + double CostData" where
  "fetch_aws_costs_before_credits_try w =
     (if \<not> boto3_installed w then Inl import_error
      else case client w ''ce'' of
        Some e \<Rightarrow> Inl e
      | None \<Rightarrow>
          let start_date = first_of_month (today w);
              end_date = today w
          in case get_cost_and_usage w
                    \<lparr>period_start = start_date, period_end = end_date, group_by = [''RECORD_TYPE'']\<rparr> of
               Inl e \<Rightarrow> Inl e
             | Inr response \<Rightarrow>
                 (case record_results_loop w response (Finite 0, Finite 0) of
                    Inl e \<Rightarrow> Inl e
                  | Inr (usage_cost, credit_amount) \<Rightarrow>
                      (case get_cost_and_usage w
                              \<lparr>period_start = start_date, period_end = end_date,
                               group_by = [''SERVICE'', ''RECORD_TYPE'']\<rparr> of
                         Inl e \<Rightarrow> Inl e
                       | Inr response' \<Rightarrow>
                           let service_cost_map = usage_results_loop w response' [];
                               service_costs = charged_services service_cost_map;
                               ranked = get_top_services service_costs default_limit;
                               service_names = map fst ranked;
                               activity_data = fetch_service_activity w service_names
                           in Inr \<lparr>month_to_date = round2d usage_cost,
                                   top_services = with_activity activity_data ranked,
                                   last_updated = now w\<rparr>)))"

definition fetch_aws_costs_before_credits :: "world \<Rightarrow> exn + double CostData" where
  "fetch_aws_costs_before_credits w =
     (case fetch_aws_costs_before_credits_try w of
        Inl e \<Rightarrow> Inl (handle_aws_error e)
      | Inr cost_data \<Rightarrow> Inr cost_data)"

text \<open>
  \<open>fetch_aws_costs\<close> returns what \<open>fetch_aws_costs_before_credits\<close> returns and raises
  again what it raises (after printing the error).
\<close>

definition fetch_aws_costs :: "world \<Rightarrow> exn + double CostData" where
  "fetch_aws_costs w =
     (case fetch_aws_costs_before_credits w of
        Inl e \<Rightarrow> Inl e
      | Inr cost_data \<Rightarrow> Inr cost_data)"

section \<open>Start-up\<close>

text \<open>
  The configuration \<open>load_config\<close> returns (\<open>config.py\<close> is not among the sources; the
  three fields are the ones \<open>main\<close> reads).
\<close>

record config =
  use_simulated_data :: bool
  display_month :: string
  refresh_interval :: int

text \<open>
  The value of the variable \<open>fetcher\<close> of \<open>main\<close>: one of the three functions it
  imports. \<open>run_fetcher\<close> is the call \<open>fetcher()\<close>; the floats of a simulated snapshot
  are finite.
\<close>

datatype fetcher = Fetch_simulated_costs | Fetch_aws_costs | Fetch_november_costs

definition as_doubles :: "real CostData \<Rightarrow> double CostData" where
  "as_doubles d =
     \<lparr>month_to_date = Finite (month_to_date d),
      top_services = map (\<lambda>(name, cost, activity). (name, Finite cost, activity)) (top_services d),
      last_updated = last_updated d\<rparr>"

fun run_fetcher :: "fetcher \<Rightarrow> world \<Rightarrow> exn + double CostData" where
  "run_fetcher Fetch_simulated_costs w = Inr (as_doubles (fetch_simulated_costs w))"
| "run_fetcher Fetch_aws_costs w = fetch_aws_costs w"
| "run_fetcher Fetch_november_costs w = fetch_november_costs w"

text \<open>
  What \<open>main\<close> does that a user can see, in order: the blocks of \<open>print\<close> calls (one
  constructor for each block, with the number or message it prints), the error dialog
  with its title and message, and, to count them, the calls of a fetcher.
\<close>

datatype shown =
    Print_using_simulated
  | Print_displaying_november
  | Print_november_total double
  | Print_no_november_charges
  | Print_november_error string
  | Print_attempting
  | Print_zero_warning
  | Print_connected double
  | Print_aws_error string
  | Print_started int
  | Error_dialog string string
  | Called fetcher

definition simulated_instead_text :: string where
  "simulated_instead_text =
     ''\<newline>\<newline>The widget will use simulated data instead.\<newline>'' @
     ''To use real AWS data, see CLOUDWATCH_SETUP.md''"

text \<open>
  The selection of the fetcher, lines 45 to 97 of \<open>main\<close>. Four of its \<open>print\<close> calls
  stand inside a \<open>try\<close> and print a line that starts with an emoji (U+2705 in lines 61
  and 85, U+26A0 in lines 63 and 76); each is the first \<open>print\<close> of its block. When the
  output cannot encode the emoji, that \<open>print\<close> raises, and the handler of the \<open>try\<close>
  runs: in line 85 after \<open>fetcher = fetch_aws_costs\<close> has been executed. The other
  lines \<open>main\<close> prints are ASCII and are taken to be printed.
  \<^verbatim>\<open>
      if config.use_simulated_data:
          fetcher = fetch_simulated_costs
          print("Using simulated cost data")
      else:
          if config.display_month == "november":
              print("Displaying November 2025 cost data...")
              try:
                  test_data = fetch_november_costs()
                  if test_data.month_to_date > 0:
                      fetcher = fetch_november_costs
                      print(f"<U+2705> November 2025 Total: ${test_data.month_to_date:.2f}")
                  else:
                      print("<U+26A0>  No charges in November 2025")
                      print("Using simulated data instead...")
                      fetcher = fetch_simulated_costs
              except Exception as e:
                  print(f"Error fetching November data: {e}")
                  fetcher = fetch_simulated_costs
          else:
              try:
                  print("Attempting to fetch real AWS cost data...")
                  test_data = fetch_aws_costs()
                  if test_data.month_to_date == 0:
                      print("\n<U+26A0>  Warning: Current month showing $0.00")
                      ...
                      fetcher = fetch_simulated_costs
                  else:
                      fetcher = fetch_aws_costs
                      print(f"<U+2705> Connected to AWS - Current MTD: ${test_data.month_to_date:.2f}")
              except Exception as e:
                  error_msg = str(e)
                  print(f"AWS Error: {error_msg}")
                  show_error_dialog("AWS Credentials Error", ...)
                  fetcher = fetch_simulated_costs
  \<close>
  \<open>november_try\<close> and \<open>current_try\<close> are the bodies of the two \<open>try\<close> blocks: the
  exception that leaves the body, or the fetcher assigned and what was printed.
\<close>

definition november_try :: "world \<Rightarrow> exn + fetcher \<times> shown list" where
  "november_try w =
     (case fetch_november_costs w of
        Inl e \<Rightarrow> Inl e
      | Inr test_data \<Rightarrow>
          if month_to_date test_data > Finite 0
          then (case emoji_print w of
                  Some e \<Rightarrow> Inl e
                | None \<Rightarrow>
                    Inr (Fetch_november_costs, [Print_november_total (month_to_date test_data)]))
          else (case emoji_print w of
                  Some e \<Rightarrow> Inl e
                | None \<Rightarrow> Inr (Fetch_simulated_costs, [Print_no_november_charges])))"

definition current_try :: "world \<Rightarrow> exn + fetcher \<times> shown list" where
  "current_try w =
     (case fetch_aws_costs w of
        Inl e \<Rightarrow> Inl e
      | Inr test_data \<Rightarrow>
          if month_to_date test_data = Finite 0
          then (case emoji_print w of
                  Some e \<Rightarrow> Inl e
                | None \<Rightarrow> Inr (Fetch_simulated_costs, [Print_zero_warning]))
          else (case emoji_print w of
                  Some e \<Rightarrow> Inl e
                | None \<Rightarrow> Inr (Fetch_aws_costs, [Print_connected (month_to_date test_data)])))"

definition select_fetcher :: "config \<Rightarrow> world \<Rightarrow> fetcher \<times> shown list" where
  "select_fetcher cfg w =
     (if use_simulated_data cfg then (Fetch_simulated_costs, [Print_using_simulated])
      else if display_month cfg = ''november'' then
        (case november_try w of
           Inr (fetcher, out) \<Rightarrow>
             (fetcher, [Print_displaying_november, Called Fetch_november_costs] @ out)
         | Inl e \<Rightarrow>
             (Fetch_simulated_costs,
              [Print_displaying_november, Called Fetch_november_costs,
               Print_november_error (str e)]))
      else
        (case current_try w of
           Inr (fetcher, out) \<Rightarrow> (fetcher, [Print_attempting, Called Fetch_aws_costs] @ out)
         | Inl e \<Rightarrow>
             let error_msg = str e
             in (Fetch_simulated_costs,
                 [Print_attempting, Called Fetch_aws_costs, Print_aws_error error_msg,
                  Error_dialog ''AWS Credentials Error'' (error_msg @ simulated_instead_text)])))"

text \<open>
  Modelled from the spec: the scheduler (\<open>scheduler.py\<close>, with \<open>UpdateScheduler\<close>, is not
  among the sources). The spec (4.8, 5): the strategy is chosen once at startup;
  "subsequent ticks reuse the same selected strategy without re-probing"; the scheduler
  exposes start and stop, and "a stopped scheduler must never invoke the strategy again".
  \<open>tick\<close> is the fetcher a tick invokes, if any.
\<close>

record scheduler =
  scheduled_fetcher :: fetcher
  interval :: int
  running :: bool

definition UpdateScheduler :: "fetcher \<Rightarrow> int \<Rightarrow> scheduler" where
  "UpdateScheduler f secs = \<lparr>scheduled_fetcher = f, interval = secs, running = False\<rparr>"

definition start :: "scheduler \<Rightarrow> scheduler" where
  "start s = s\<lparr>running := True\<rparr>"

definition tick :: "scheduler \<Rightarrow> fetcher option" where
  "tick s = (if running s then Some (scheduled_fetcher s) else None)"

text \<open>
  \<open>main\<close>: the selection, the widget (\<open>widget.py\<close> is not among the sources:
  \<open>widget_error\<close> is the message of the exception \<open>AWSCostWidget(config)\<close> raises, if
  it raises), the scheduler. When the widget cannot be created, \<open>main\<close> shows the error
  and exits, and no scheduler is started.
\<close>

definition main :: "config \<Rightarrow> world \<Rightarrow> string option \<Rightarrow> scheduler option \<times> shown list" where
  "main cfg w widget_error =
     (let (fetcher, out) = select_fetcher cfg w
      in case widget_error of
           Some e \<Rightarrow>
             (None, out @ [Error_dialog ''Widget Error'' (''Failed to create widget: '' @ e)])
         | None \<Rightarrow>
             (Some (start (UpdateScheduler fetcher (refresh_interval cfg))),
              out @ [Print_started (refresh_interval cfg)]))"

section \<open>Quantities the claims name\<close>

text \<open>
  The sum of a list of doubles: the machine adds them one after the other, from \<open>0.0\<close>,
  in the order of the list.
\<close>

definition float_sum :: "world \<Rightarrow> double list \<Rightarrow> double" where
  "float_sum w amounts = foldl (float_add w) (Finite 0) amounts"

text \<open>
  The ledger grouped by record type, as \<open>fetch_aws_costs_before_credits\<close> asks for it
  first, and its two totals in the words of the spec (4.6): the sum of the amounts whose
  record type is "Usage", and the sum of those whose record type is "Credit", in the
  order of the ledger. The record type of a group is the first of its keys.
\<close>

definition record_type_query :: "world \<Rightarrow> ce_query" where
  "record_type_query w =
     \<lparr>period_start = first_of_month (today w), period_end = today w, group_by = [''RECORD_TYPE'']\<rparr>"

definition is_usage :: "cost_group \<Rightarrow> bool" where
  "is_usage g = (case Keys g of [] \<Rightarrow> False | record_type # ks \<Rightarrow> record_type = ''Usage'')"

definition is_credit :: "cost_group \<Rightarrow> bool" where
  "is_credit g = (case Keys g of [] \<Rightarrow> False | record_type # ks \<Rightarrow> record_type = ''Credit'')"

definition usage_total :: "world \<Rightarrow> ce_response \<Rightarrow> double" where
  "usage_total w response = float_sum w (map Amount (filter is_usage (concat response)))"

definition credit_total :: "world \<Rightarrow> ce_response \<Rightarrow> double" where
  "credit_total w response = float_sum w (map Amount (filter is_credit (concat response)))"

text \<open>
  The ranking of a snapshot: its \<open>top_services\<close> without the activity counts.
\<close>

definition ranking :: "'n CostData \<Rightarrow> (string \<times> 'n) list" where
  "ranking d = map (\<lambda>(name, cost, activity). (name, cost)) (top_services d)"

text \<open>
  "Within 10 percent of \<open>base\<close>", and the base total of the simulated source: the sum
  of the base costs of its table.
\<close>

definition within_ten_percent :: "real \<Rightarrow> real \<Rightarrow> bool" where
  "within_ten_percent base x = (9/10 * base \<le> x \<and> x \<le> 11/10 * base)"

definition base_total :: real where
  "base_total = sum_list (map snd simulated_service_costs)"

text \<open>
  Every variation a run of the simulated source draws lies in \<open>[0.9, 1.1]\<close>, as
  \<open>random.uniform(0.9, 1.1)\<close> promises.
\<close>

definition draws_in_range :: "world \<Rightarrow> bool" where
  "draws_in_range w =
     (\<forall>i < length simulated_service_costs. 9/10 \<le> random_uniform w i \<and> random_uniform w i \<le> 11/10)"

text \<open>
  The aggregated cost of a service in a ledger grouped by service: the sum, over all
  days, of the amounts of the groups whose first key is the service. In the ledger
  grouped by service and record type, the aggregated usage of a service: the sum of the
  positive amounts of its "Usage" groups. Both are sums of doubles, in the order of the
  ledger.
\<close>

definition first_key :: "cost_group \<Rightarrow> string option" where
  "first_key g = (case Keys g of [] \<Rightarrow> None | k # ks \<Rightarrow> Some k)"

definition service_total :: "world \<Rightarrow> ce_response \<Rightarrow> string \<Rightarrow> double" where
  "service_total w response service_name =
     float_sum w (map Amount (filter (\<lambda>g. first_key g = Some service_name) (concat response)))"

definition is_usage_of :: "string \<Rightarrow> cost_group \<Rightarrow> bool" where
  "is_usage_of service_name g =
     (case Keys g of
        k # record_type # ks \<Rightarrow>
          k = service_name \<and> record_type = ''Usage'' \<and> Amount g > Finite 0
      | _ \<Rightarrow> False)"

definition usage_by_service :: "world \<Rightarrow> ce_response \<Rightarrow> string \<Rightarrow> double" where
  "usage_by_service w response service_name =
     float_sum w (map Amount (filter (is_usage_of service_name) (concat response)))"

text \<open>\<open>d.get(k, 0.0)\<close> on a dictionary of costs.\<close>

definition entry_of :: "(string \<times> double) list \<Rightarrow> string \<Rightarrow> double" where
  "entry_of d k = (case map_of d k of None \<Rightarrow> Finite 0 | Some v \<Rightarrow> v)"

text \<open>
  The queries the ledger sources send, the total of step 1 of the billing-metric source
  (the \<open>Maximum\<close> of the latest data point, 0 without data points), and the breakdown
  that source hands to the ranker: what its loop collected, or the ledger's breakdown
  when the loop collected nothing and the total is positive (\<open>from_fallback\<close>).
\<close>

definition service_query :: "world \<Rightarrow> ce_query" where
  "service_query w =
     \<lparr>period_start = first_of_month (today w), period_end = today w, group_by = [''SERVICE'']\<rparr>"

definition november_query :: ce_query where
  "november_query =
     \<lparr>period_start = (2025, 11, 1), period_end = (2025, 12, 1), group_by = [''SERVICE'']\<rparr>"

definition usage_query :: "world \<Rightarrow> ce_query" where
  "usage_query w =
     \<lparr>period_start = first_of_month (today w), period_end = today w,
      group_by = [''SERVICE'', ''RECORD_TYPE'']\<rparr>"

definition aggregate_total :: "datapoint list \<Rightarrow> double" where
  "aggregate_total datapoints =
     (case latest_maximum datapoints of None \<Rightarrow> Finite 0 | Some m \<Rightarrow> m)"

definition from_fallback :: "world \<Rightarrow> datapoint list \<Rightarrow> bool" where
  "from_fallback w datapoints =
     (billing_services_loop w services_to_check [] = [] \<and> aggregate_total datapoints > Finite 0)"

definition billing_breakdown :: "world \<Rightarrow> datapoint list \<Rightarrow> (string \<times> double) list" where
  "billing_breakdown w datapoints =
     (if from_fallback w datapoints
      then fetch_cost_explorer_services w None None
      else billing_services_loop w services_to_check [])"

text \<open>
  What the billing metric reports for one service of the checklist: the \<open>Maximum\<close> of
  the latest data point, nothing when the query raises or returns no data point.
  An entry (name, cost) is \<open>charged\<close> for an aggregation when the aggregated cost of its
  service is above the negligible threshold and its cost is that aggregated cost rounded
  to 2 decimals; it is \<open>metric_charged\<close> when it is the entry of a service of the
  checklist whose metric is above the threshold. \<open>one_thousandth\<close> is the number 0.001
  itself.
\<close>

definition one_thousandth :: double where
  "one_thousandth = Finite (1/1000)"

definition metric_of :: "world \<Rightarrow> string \<Rightarrow> double option" where
  "metric_of w service =
     (case get_metric_statistics w (Some service) of
        Inl e \<Rightarrow> None
      | Inr datapoints \<Rightarrow> latest_maximum datapoints)"

definition charged :: "(string \<Rightarrow> double) \<Rightarrow> string \<times> double \<Rightarrow> bool" where
  "charged aggregated entry =
     (aggregated (fst entry) > negligible_threshold \<and> snd entry = round2d (aggregated (fst entry)))"

definition metric_charged :: "world \<Rightarrow> string \<times> double \<Rightarrow> bool" where
  "metric_charged w entry =
     (\<exists>service \<in> set services_to_check.
        fst entry = readable_name service
        \<and> (case metric_of w service of
             None \<Rightarrow> False
           | Some cost \<Rightarrow> cost > negligible_threshold \<and> snd entry = round2d cost))"

text \<open>
  The count the \<open>i\<close>-th lookup of a run of \<open>fetch_service_activity\<close> yields for a service
  name: the number of events returned, 0 when the lookup raises. The capability is
  available when boto3 can be imported and the CloudTrail client can be created.
\<close>

definition lookup_count :: "world \<Rightarrow> nat \<Rightarrow> string \<Rightarrow> int" where
  "lookup_count w i service_name =
     (case lookup_events w i (event_source_of service_name) of
        Inl e \<Rightarrow> 0
      | Inr events \<Rightarrow> int events)"

definition cloudtrail_available :: "world \<Rightarrow> bool" where
  "cloudtrail_available w = (boto3_installed w \<and> client w ''cloudtrail'' = None)"

text \<open>
  The derivation of the event source in the words of the spec (3): lower-case, strip the
  known prefixes "amazon " and "aws ", strip the spaces, append ".amazonaws.com".
  \<open>prefixes_in_front_only\<close>: once the prefixes are stripped, neither of them occurs in
  the rest of the lower-cased name.
\<close>

definition strip_prefix :: "string \<Rightarrow> string \<Rightarrow> string" where
  "strip_prefix p s = (if prefix p s then drop (length p) s else s)"

definition without_spaces :: "string \<Rightarrow> string" where
  "without_spaces s = filter (\<lambda>c. c \<noteq> CHR '' '') s"

definition claimed_event_source :: "string \<Rightarrow> string" where
  "claimed_event_source service_name =
     without_spaces (strip_prefix ''aws '' (strip_prefix ''amazon '' (lower service_name)))
       @ ''.amazonaws.com''"

definition prefixes_in_front_only :: "string \<Rightarrow> bool" where
  "prefixes_in_front_only service_name =
     (let rest = strip_prefix ''aws '' (strip_prefix ''amazon '' (lower service_name))
      in \<not> contains ''amazon '' rest \<and> \<not> contains ''aws '' rest)"

text \<open>
  The live current-period mode of the configuration, the test by which the sources
  recognise a credentials error from its message, and an output on which the lines with
  an emoji can be printed.
\<close>

definition emoji_printable :: "world \<Rightarrow> bool" where
  "emoji_printable w = (emoji_print w = None)"

definition live_mode :: "config \<Rightarrow> bool" where
  "live_mode cfg = (\<not> use_simulated_data cfg \<and> display_month cfg \<noteq> ''november'')"

definition credentials_class :: "string \<Rightarrow> bool" where
  "credentials_class error_msg =
     (contains ''credentials'' (lower error_msg) \<or> contains ''NoCredentialsError'' error_msg)"

section \<open>Example worlds\<close>

text \<open>
  The addition of the examples. The sum of two doubles whose exact sum is a double is
  that sum, as for the amounts of the accounts below (60 + 40, 3 + 4.5). The sums of the
  examples whose exact sum is not a double are listed in \<open>rounded_sums\<close>, each with the
  double the machine returns for it (the nearest one, a tie going to the even
  significand): \<open>0.001 + 0.014\<close>, and the five sums of the running total of
  \<open>0.00039, 0.00012, 0.00005, 0.00001, 0.00039, 0.00004\<close>. With an infinity or
  not-a-number the sum is the one of IEEE 754.
\<close>

definition rounded_sums :: "((real \<times> real) \<times> real) list" where
  "rounded_sums =
     [((1152921504606847 / 2 ^ 60, 8070450532247929 / 2 ^ 59), 1080863910568919 / 2 ^ 56),
      ((7194230188746725 / 2 ^ 64, 8854437155380585 / 2 ^ 66), 146997491837373 / 2 ^ 58),
      ((146997491837373 / 2 ^ 58, 7378697629483821 / 2 ^ 67), 5165088340638675 / 2 ^ 63),
      ((5165088340638675 / 2 ^ 63, 5902958103587057 / 2 ^ 69), 5257322061007223 / 2 ^ 63),
      ((5257322061007223 / 2 ^ 63, 7194230188746725 / 2 ^ 64), 4427218577690293 / 2 ^ 62),
      ((4427218577690293 / 2 ^ 62, 5902958103587057 / 2 ^ 67), 4611686018427389 / 2 ^ 62)]"

fun machine_add :: "double \<Rightarrow> double \<Rightarrow> double" where
  "machine_add (Finite x) (Finite y) =
     (case map_of rounded_sums (x, y) of Some z \<Rightarrow> Finite z | None \<Rightarrow> Finite (x + y))"
| "machine_add NaN y = NaN"
| "machine_add x NaN = NaN"
| "machine_add PosInf NegInf = NaN"
| "machine_add NegInf PosInf = NaN"
| "machine_add PosInf y = PosInf"
| "machine_add NegInf y = NegInf"
| "machine_add (Finite x) y = y"

text \<open>
  An account with credits: 100 of usage over two days, a credit of 50 and a tax line.
  Its output prints every character.
\<close>

definition credited_ledger :: ce_response where
  "credited_ledger =
     [[\<lparr>Keys = [''Usage''], Amount = Finite 60\<rparr>, \<lparr>Keys = [''Credit''], Amount = Finite (- 50)\<rparr>],
      [\<lparr>Keys = [''Usage''], Amount = Finite 40\<rparr>, \<lparr>Keys = [''Tax''], Amount = Finite 7\<rparr>]]"

definition credited_account :: world where
  "credited_account =
     \<lparr>boto3_installed = True,
      client = (\<lambda>name. None),
      get_metric_statistics = (\<lambda>service. Inr []),
      get_cost_and_usage = (\<lambda>q.
         if group_by q = [''RECORD_TYPE'']
         then Inr credited_ledger
         else Inr [[\<lparr>Keys = [''Amazon S3'', ''Usage''], Amount = Finite 60\<rparr>,
                    \<lparr>Keys = [''Amazon S3'', ''Credit''], Amount = Finite (- 50)\<rparr>],
                   [\<lparr>Keys = [''AWS Lambda'', ''Usage''], Amount = Finite 40\<rparr>,
                    \<lparr>Keys = [''AWS Lambda'', ''Tax''], Amount = Finite 7\<rparr>]]),
      lookup_events = (\<lambda>i event_source. Inr 3),
      today = (2025, 12, 15),
      now = 0,
      float_add = machine_add,
      emoji_print = None,
      random_uniform = (\<lambda>i. 1),
      random_randint = (\<lambda>i lo hi. lo)\<rparr>"

text \<open>
  An account whose usage is two lines, the doubles \<open>0.001\<close> and \<open>0.014\<close>. Their exact
  sum rounds to 0.02; the sum the machine returns is below 0.015 and rounds to 0.01.
\<close>

definition cents_ledger :: ce_response where
  "cents_ledger =
     [[\<lparr>Keys = [''Usage''], Amount = Finite (1152921504606847 / 2 ^ 60)\<rparr>],
      [\<lparr>Keys = [''Usage''], Amount = Finite (8070450532247929 / 2 ^ 59)\<rparr>]]"

definition cents_account :: world where
  "cents_account =
     credited_account
       \<lparr>get_cost_and_usage := (\<lambda>q. if group_by q = [''RECORD_TYPE''] then Inr cents_ledger else Inr [])\<rparr>"

text \<open>
  An account whose ledger by service has six daily lines of one service, the doubles
  \<open>0.00039, 0.00012, 0.00005, 0.00001, 0.00039, 0.00004\<close>: the running total the machine
  computes ends at \<open>4611686018427389 / 2 ^ 62\<close>, just above the double \<open>0.001\<close>.
\<close>

definition six_lines_ledger :: ce_response where
  "six_lines_ledger =
     [[\<lparr>Keys = [''X''], Amount = Finite (7194230188746725 / 2 ^ 64)\<rparr>],
      [\<lparr>Keys = [''X''], Amount = Finite (8854437155380585 / 2 ^ 66)\<rparr>],
      [\<lparr>Keys = [''X''], Amount = Finite (7378697629483821 / 2 ^ 67)\<rparr>],
      [\<lparr>Keys = [''X''], Amount = Finite (5902958103587057 / 2 ^ 69)\<rparr>],
      [\<lparr>Keys = [''X''], Amount = Finite (7194230188746725 / 2 ^ 64)\<rparr>],
      [\<lparr>Keys = [''X''], Amount = Finite (5902958103587057 / 2 ^ 67)\<rparr>]]"

definition six_lines_account :: world where
  "six_lines_account = credited_account\<lparr>get_cost_and_usage := (\<lambda>q. Inr six_lines_ledger)\<rparr>"

text \<open>Runs of the simulated source: every variation is 0.901, every variation is 1.\<close>

definition low_draws :: world where
  "low_draws = credited_account\<lparr>random_uniform := (\<lambda>i. 901/1000)\<rparr>"

definition even_draws :: world where
  "even_draws = credited_account\<lparr>random_uniform := (\<lambda>i. 1)\<rparr>"

text \<open>
  An account with billing metrics: the total was 10 and is now 12.34375; S3 reports
  7.50, the query for Lambda is throttled, EC2 reports a negligible \<open>1/2048\<close>, the other
  services report nothing. Its ledger by service has S3 on two days and a negligible
  Lambda line. In the second account the query for Lambda is throttled and no other
  service of the checklist reports anything; its ledger by service has S3 on two days
  and a Lambda line of 5.
\<close>

definition billing_account :: world where
  "billing_account =
     credited_account
       \<lparr>get_metric_statistics := (\<lambda>service.
           if service = None
           then Inr [\<lparr>Timestamp = 1, Maximum = Finite 10\<rparr>,
                     \<lparr>Timestamp = 2, Maximum = Finite (395/32)\<rparr>]
           else if service = Some ''AmazonS3''
           then Inr [\<lparr>Timestamp = 2, Maximum = Finite (15/2)\<rparr>, \<lparr>Timestamp = 1, Maximum = Finite 5\<rparr>]
           else if service = Some ''AWSLambda'' then Inl (Exception ''Throttling'')
           else if service = Some ''AmazonEC2'' then Inr [\<lparr>Timestamp = 2, Maximum = Finite (1/2048)\<rparr>]
           else Inr []),
        get_cost_and_usage := (\<lambda>q.
           if group_by q = [''SERVICE'']
           then Inr [[\<lparr>Keys = [''Amazon Simple Storage Service''], Amount = Finite 3\<rparr>,
                      \<lparr>Keys = [''AWS Lambda''], Amount = Finite (1/4096)\<rparr>],
                     [\<lparr>Keys = [''Amazon Simple Storage Service''], Amount = Finite (9/2)\<rparr>]]
           else get_cost_and_usage credited_account q)\<rparr>"


text \<open>
  Five services are looked up; the third lookup is throttled, the \<open>i\<close>-th of the others
  returns \<open>10 + i\<close> events. In the second world boto3 is not installed.
\<close>

definition throttled_trail :: world where
  "throttled_trail =
     credited_account
       \<lparr>lookup_events := (\<lambda>i event_source.
           if i = 2 then Inl (Exception ''ThrottlingException'') else Inr (10 + i))\<rparr>"

definition no_boto3 :: world where
  "no_boto3 = throttled_trail\<lparr>boto3_installed := False\<rparr>"

definition five_services :: "string list" where
  "five_services = [''Amazon EC2'', ''Amazon S3'', ''AWS Lambda'', ''Amazon RDS'', ''AWS Glue'']"

text \<open>
  A live configuration; an account whose credentials cannot be found; an account whose
  ledger is still empty this month; the account with credits on an output whose encoding
  (cp1252, say, or ASCII) has no character U+2705, where \<open>print\<close> raises
  \<open>UnicodeEncodeError\<close>, a subclass of \<open>Exception\<close>.
\<close>

definition live_config :: config where
  "live_config = \<lparr>use_simulated_data = False, display_month = ''current'', refresh_interval = 300\<rparr>"

definition no_credentials :: world where
  "no_credentials =
     credited_account
       \<lparr>get_cost_and_usage := (\<lambda>q. Inl (Exception ''Unable to locate credentials''))\<rparr>"

definition empty_month :: world where
  "empty_month = credited_account\<lparr>get_cost_and_usage := (\<lambda>q. Inr [])\<rparr>"

definition encode_error :: string where
  "encode_error =
     [CHR 0x27] @ ''charmap'' @ [CHR 0x27] @ '' codec can't encode character '' @
     [CHR 0x27, CHR 0x5C] @ ''u2705'' @ [CHR 0x27] @
     '' in position 0: character maps to <undefined>''"

definition legacy_console :: world where
  "legacy_console = credited_account\<lparr>emoji_print := Some (Exception encode_error)\<rparr>"

section \<open>Facts about sorting and slicing\<close>

lemma sorted_reverse_descending: "descending (sorted_reverse snd xs)"
proof -
  have "sorted (map snd (sort_key snd (rev xs)))"
    by (rule sorted_sort_key)
  then have "sorted_wrt (\<lambda>a b. snd a \<le> snd b) (sort_key snd (rev xs))"
    by (simp add: sorted_map)
  then show ?thesis
    by (simp add: descending_def sorted_reverse_def sorted_wrt_rev)
qed

lemma sorted_reverse_stable:
  "filter (\<lambda>y. k y = c) (sorted_reverse k xs) = filter (\<lambda>y. k y = c) xs"
proof -
  have "filter (\<lambda>y. k y = c) (sorted_reverse k xs)
        = rev (filter (\<lambda>y. k y = c) (sort_key k (rev xs)))"
    by (simp add: sorted_reverse_def rev_filter)
  also have "\<dots> = rev (filter (\<lambda>y. k y = c) (rev xs))"
    by (simp only: sort_key_stable)
  also have "\<dots> = filter (\<lambda>y. k y = c) xs"
    by (simp add: rev_filter)
  finally show ?thesis .
qed

lemma mset_sorted_reverse: "mset (sorted_reverse k xs) = mset xs"
  by (simp add: sorted_reverse_def)

lemma length_sorted_reverse: "length (sorted_reverse k xs) = length xs"
  by (simp add: sorted_reverse_def)

lemma set_sorted_reverse: "set (sorted_reverse k xs) = set xs"
  by (simp add: sorted_reverse_def)

lemma slice_to_prefix: "prefix (slice_to xs n) xs"
  by (simp add: slice_to_def take_is_prefix)

lemma descending_prefix: "prefix ys xs \<Longrightarrow> descending xs \<Longrightarrow> descending ys"
  by (auto simp: descending_def prefix_def sorted_wrt_append)

lemma filter_prefix: "prefix ys xs \<Longrightarrow> prefix (filter P ys) (filter P xs)"
  by (auto simp: prefix_def)

lemma length_slice_to: "0 \<le> n \<Longrightarrow> length (slice_to xs n) \<le> nat n"
  by (simp add: slice_to_def)

lemma slice_to_all: "int (length xs) \<le> n \<Longrightarrow> slice_to xs n = xs"
  by (simp add: slice_to_def)

lemma get_top_services_descending: "descending (get_top_services services limit)"
  unfolding get_top_services_def Let_def
  by (rule descending_prefix [OF slice_to_prefix sorted_reverse_descending])

lemma get_top_services_prefix:
  "prefix (get_top_services services limit) (sorted_reverse snd services)"
  by (simp add: get_top_services_def slice_to_prefix)

lemma get_top_services_all:
  "int (length services) \<le> limit \<Longrightarrow> get_top_services services limit = sorted_reverse snd services"
  by (simp add: get_top_services_def slice_to_all length_sorted_reverse)

lemma get_top_services_length:
  "0 \<le> limit \<Longrightarrow> length (get_top_services services limit) \<le> nat limit"
  by (simp add: get_top_services_def length_slice_to)

lemma get_top_services_stable:
  "prefix (filter (\<lambda>y. snd y = c) (get_top_services services limit))
          (filter (\<lambda>y. snd y = c) services)"
  using filter_prefix [OF get_top_services_prefix, of "\<lambda>y. snd y = c" services limit]
  by (simp add: sorted_reverse_stable)

lemma get_top_services_Nil: "get_top_services [] limit = []"
  by (simp add: get_top_services_def sorted_reverse_def slice_to_def)

lemma get_top_services_take:
  "0 \<le> limit \<Longrightarrow> get_top_services services limit = take (nat limit) (sorted_reverse snd services)"
  by (simp add: get_top_services_def slice_to_def)

lemma get_top_services_length_eq:
  "0 \<le> limit \<Longrightarrow> length (get_top_services services limit) = min (nat limit) (length services)"
  by (simp add: get_top_services_take length_sorted_reverse min.commute)

lemma get_top_services_mset:
  "0 \<le> limit \<Longrightarrow>
     mset services = mset (get_top_services services limit)
       + mset (drop (nat limit) (sorted_reverse snd services))"
proof -
  assume "0 \<le> limit"
  then have "mset (get_top_services services limit)
       + mset (drop (nat limit) (sorted_reverse snd services))
     = mset (take (nat limit) (sorted_reverse snd services)
         @ drop (nat limit) (sorted_reverse snd services))"
    by (simp only: get_top_services_take mset_append)
  then show ?thesis
    by (simp only: append_take_drop_id mset_sorted_reverse)
qed

lemma get_top_services_subset:
  "0 \<le> limit \<Longrightarrow> mset (get_top_services services limit) \<subseteq># mset services"
  using get_top_services_mset [of limit services] by simp

lemma get_top_services_top:
  assumes "0 \<le> limit" "x \<in># mset services - mset (get_top_services services limit)"
    "y \<in> set (get_top_services services limit)"
  shows "snd x \<le> snd y"
proof -
  let ?s = "sorted_reverse snd services"
  from get_top_services_mset [OF assms(1), of services] assms(2)
  have x: "x \<in> set (drop (nat limit) ?s)"
    by simp
  from assms(3) have y: "y \<in> set (take (nat limit) ?s)"
    by (simp only: get_top_services_take [OF assms(1)])
  have "descending ?s"
    by (rule sorted_reverse_descending)
  then have "sorted_wrt (\<lambda>a b. snd b \<le> snd a) (take (nat limit) ?s @ drop (nat limit) ?s)"
    by (simp only: descending_def append_take_drop_id)
  then have "\<forall>a \<in> set (take (nat limit) ?s). \<forall>b \<in> set (drop (nat limit) ?s). snd b \<le> snd a"
    unfolding sorted_wrt_append by blast
  with x y show ?thesis
    by blast
qed


section \<open>Facts about doubles\<close>

lemma Finite_le_iff: "Finite a \<le> Finite b \<longleftrightarrow> a \<le> b"
  by (simp add: less_eq_double_def)

lemma Finite_less_iff: "Finite a < Finite b \<longleftrightarrow> a < b"
  by (auto simp: less_double_def less_eq_double_def)

lemma threshold_above_one_thousandth: "one_thousandth < negligible_threshold"
  by (simp add: one_thousandth_def negligible_threshold_def Finite_less_iff)

lemma above_threshold: "negligible_threshold < x \<Longrightarrow> one_thousandth < x"
  using threshold_above_one_thousandth by (rule less_trans)

lemma ranking_as_doubles:
  "ranking (as_doubles x) = map (\<lambda>(name, cost). (name, Finite cost)) (ranking x)"
  by (simp add: ranking_def as_doubles_def split_def)

lemma descending_as_doubles:
  "descending (map (\<lambda>(name, cost). (name, Finite cost)) xs) = descending xs"
  by (simp add: descending_def sorted_wrt_map split_def Finite_le_iff)

lemma length_top_services_as_doubles:
  "length (top_services (as_doubles x)) = length (top_services x)"
  by (simp add: as_doubles_def)

section \<open>Facts about the ledger loops\<close>

lemma record_groups_loop_usage:
  "record_groups_loop w gs (u, c) = Inr (u', c') \<Longrightarrow>
     u' = foldl (float_add w) u (map Amount (filter is_usage gs))"
proof (induction gs arbitrary: u c)
  case Nil
  then show ?case by simp
next
  case (Cons g gs)
  show ?case
  proof (cases "Keys g")
    case Nil
    with Cons.prems show ?thesis by (simp add: index_error_def)
  next
    case (Cons record_type ks)
    with Cons.prems Cons.IH [of "float_add w u (Amount g)" c]
      Cons.IH [of u "float_add w c (Amount g)"] Cons.IH [of u c]
    show ?thesis
      by (simp add: is_usage_def split: if_splits)
  qed
qed

lemma record_results_loop_usage:
  "record_results_loop w rs (u, c) = Inr (u', c') \<Longrightarrow>
     u' = foldl (float_add w) u (map Amount (filter is_usage (concat rs)))"
proof (induction rs arbitrary: u c)
  case Nil
  then show ?case by simp
next
  case (Cons r rs)
  then obtain u1 c1 where 1: "record_groups_loop w r (u, c) = Inr (u1, c1)"
    and 2: "record_results_loop w rs (u1, c1) = Inr (u', c')"
    by (auto split: sum.splits)
  from record_groups_loop_usage [OF 1] Cons.IH [OF 2] show ?case by simp
qed

section \<open>Facts about rounding\<close>

lemma round_half_even_mono: "x \<le> y \<Longrightarrow> round_half_even x \<le> round_half_even y"
proof -
  assume xy: "x \<le> y"
  then have fl: "\<lfloor>x\<rfloor> \<le> \<lfloor>y\<rfloor>" by (rule floor_mono)
  show ?thesis
  proof (cases "\<lfloor>x\<rfloor> = \<lfloor>y\<rfloor>")
    case True
    with xy show ?thesis
      by (auto simp: round_half_even_def Let_def)
  next
    case False
    with fl have "\<lfloor>x\<rfloor> + 1 \<le> \<lfloor>y\<rfloor>" by simp
    moreover have "round_half_even x \<le> \<lfloor>x\<rfloor> + 1"
      by (simp add: round_half_even_def Let_def)
    moreover have "\<lfloor>y\<rfloor> \<le> round_half_even y"
      by (simp add: round_half_even_def Let_def)
    ultimately show ?thesis by linarith
  qed
qed

lemma round2_mono: "x \<le> y \<Longrightarrow> round2 x \<le> round2 y"
  by (simp add: round2_def round_half_even_mono divide_right_mono)

lemma round_half_even_lower: "x - 1/2 \<le> of_int (round_half_even x)"
  unfolding round_half_even_def Let_def by (auto; linarith)

lemma round_half_even_upper: "of_int (round_half_even x) \<le> x + 1/2"
  unfolding round_half_even_def Let_def by (auto; linarith)

lemma round2_lower: "x - 1/200 \<le> round2 x"
  using round_half_even_lower [of "x * 100"] by (simp add: round2_def field_simps)

lemma round2_upper: "round2 x \<le> x + 1/200"
  using round_half_even_upper [of "x * 100"] by (simp add: round2_def field_simps)

lemma round_half_even_of_int: "round_half_even (of_int k) = k"
  by (simp add: round_half_even_def Let_def)

lemma round2_cents: "round2 (of_int k / 100) = of_int k / 100"
  by (simp add: round2_def round_half_even_of_int)

lemma round2_is_cents: "\<exists>k. round2 x = of_int k / 100"
  by (auto simp: round2_def)

section \<open>Facts about the simulated source\<close>

lemma randomize_names: "map fst (randomize w i xs) = map fst xs"
  by (induction w i xs rule: randomize.induct) (simp_all add: Let_def)

lemma length_randomize: "length (randomize w i xs) = length xs"
  by (induction w i xs rule: randomize.induct) (simp_all add: Let_def)

lemma ranking_simulated_activity:
  "map (\<lambda>(name, cost, activity). (name, cost)) (simulated_activity w i xs) = xs"
  by (induction w i xs rule: simulated_activity.induct) (simp_all add: Let_def split: prod.splits)

lemma ranking_with_activity:
  "map (\<lambda>(name, cost, activity). (name, cost)) (with_activity a xs) = xs"
  by (induction xs) (auto simp: with_activity_def)

lemma ranking_fetch_simulated_costs:
  "ranking (fetch_simulated_costs w) = sorted_reverse snd (randomize w 0 simulated_service_costs)"
proof -
  have "int (length (randomize w 0 simulated_service_costs)) \<le> default_limit"
    by (simp add: length_randomize simulated_service_costs_def default_limit_def)
  then show ?thesis
    by (simp add: ranking_def fetch_simulated_costs_def Let_def ranking_simulated_activity
        get_top_services_all)
qed

lemma sum_list_sorted_reverse:
  fixes f :: "'a \<Rightarrow> real"
  shows "sum_list (map f (sorted_reverse k xs)) = sum_list (map f xs)"
proof -
  have "mset (map f (sorted_reverse k xs)) = mset (map f xs)"
    by (simp add: mset_sorted_reverse)
  then have "sum_mset (mset (map f (sorted_reverse k xs))) = sum_mset (mset (map f xs))"
    by (rule arg_cong)
  then show ?thesis
    by (simp only: sum_mset_sum_list)
qed

lemma randomized_table:
  "randomize w 0 simulated_service_costs =
     [(''AWS WAF'', round2 (148/100 * random_uniform w 0)),
      (''AWS Amplify'', round2 (34/100 * random_uniform w 1)),
      (''AWS Cost Explorer'', round2 (24/100 * random_uniform w 2)),
      (''Amazon EC2 Container Registry (ECR)'', round2 (4/100 * random_uniform w 3)),
      (''Amazon Bedrock AgentCore'', round2 (1/100 * random_uniform w 4)),
      (''Amazon S3'', round2 (1/100 * random_uniform w 5)),
      (''Amazon CloudWatch'', round2 (1/100 * random_uniform w 6))]"
  by (simp add: simulated_service_costs_def Let_def eval_nat_numeral)

lemma draws_in_rangeD:
  "draws_in_range w \<Longrightarrow> i < 7 \<Longrightarrow> 9/10 \<le> random_uniform w i \<and> random_uniform w i \<le> 11/10"
  by (simp add: draws_in_range_def simulated_service_costs_def)

lemma cost_between:
  assumes "9/10 \<le> u" "u \<le> 11/10" "0 \<le> b"
  shows "round2 (9/10 * b) \<le> round2 (b * u) \<and> round2 (b * u) \<le> round2 (11/10 * b)"
proof -
  have "b * (9/10) \<le> b * u"
    using assms(1,3) by (rule mult_left_mono)
  moreover have "b * u \<le> b * (11/10)"
    using assms(2,3) by (rule mult_left_mono)
  ultimately have "9/10 * b \<le> b * u" "b * u \<le> 11/10 * b"
    by (simp_all only: mult.commute [of b])
  then show ?thesis by (simp only: round2_mono)
qed

lemma round2_values:
  "round2 (9/10 * (148/100)) = 133/100" "round2 (11/10 * (148/100)) = 163/100"
  "round2 (9/10 * (34/100)) = 31/100" "round2 (11/10 * (34/100)) = 37/100"
  "round2 (9/10 * (24/100)) = 22/100" "round2 (11/10 * (24/100)) = 26/100"
  "round2 (9/10 * (4/100)) = 4/100" "round2 (11/10 * (4/100)) = 4/100"
  "round2 (9/10 * (1/100)) = 1/100" "round2 (11/10 * (1/100)) = 1/100"
  by (simp_all add: round2_def round_half_even_def Let_def)

lemma cost_between_values:
  assumes "9/10 \<le> u" "u \<le> 11/10"
  shows "133/100 \<le> round2 (148/100 * u) \<and> round2 (148/100 * u) \<le> 163/100"
    and "31/100 \<le> round2 (34/100 * u) \<and> round2 (34/100 * u) \<le> 37/100"
    and "22/100 \<le> round2 (24/100 * u) \<and> round2 (24/100 * u) \<le> 26/100"
    and "round2 (4/100 * u) = 4/100"
    and "round2 (1/100 * u) = 1/100"
proof -
  show "133/100 \<le> round2 (148/100 * u) \<and> round2 (148/100 * u) \<le> 163/100"
    using cost_between [OF assms, of "148/100"] by (simp only: round2_values; simp)
  show "31/100 \<le> round2 (34/100 * u) \<and> round2 (34/100 * u) \<le> 37/100"
    using cost_between [OF assms, of "34/100"] by (simp only: round2_values; simp)
  show "22/100 \<le> round2 (24/100 * u) \<and> round2 (24/100 * u) \<le> 26/100"
    using cost_between [OF assms, of "24/100"] by (simp only: round2_values; simp)
  have "4/100 \<le> round2 (4/100 * u) \<and> round2 (4/100 * u) \<le> 4/100"
    using cost_between [OF assms, of "4/100"] by (simp only: round2_values; simp)
  then show "round2 (4/100 * u) = 4/100" by simp
  have "1/100 \<le> round2 (1/100 * u) \<and> round2 (1/100 * u) \<le> 1/100"
    using cost_between [OF assms, of "1/100"] by (simp only: round2_values; simp)
  then show "round2 (1/100 * u) = 1/100" by simp
qed

lemma simulated_costs_between:
  assumes "draws_in_range w"
  shows "133/100 \<le> round2 (148/100 * random_uniform w 0) \<and> round2 (148/100 * random_uniform w 0) \<le> 163/100"
    and "31/100 \<le> round2 (34/100 * random_uniform w 1) \<and> round2 (34/100 * random_uniform w 1) \<le> 37/100"
    and "22/100 \<le> round2 (24/100 * random_uniform w 2) \<and> round2 (24/100 * random_uniform w 2) \<le> 26/100"
    and "round2 (4/100 * random_uniform w 3) = 4/100"
    and "round2 (1/100 * random_uniform w 4) = 1/100"
    and "round2 (1/100 * random_uniform w 5) = 1/100"
    and "round2 (1/100 * random_uniform w 6) = 1/100"
  using draws_in_rangeD [OF assms, of 0] draws_in_rangeD [OF assms, of 1]
    draws_in_rangeD [OF assms, of 2] draws_in_rangeD [OF assms, of 3]
    draws_in_rangeD [OF assms, of 4] draws_in_rangeD [OF assms, of 5]
    draws_in_rangeD [OF assms, of 6]
  by (simp_all only: cost_between_values) 

lemma round2_sum_cents:
  "round2 (round2 a + round2 b + round2 c + d) = round2 a + round2 b + round2 c + d"
  if "d = 7/100"
proof -
  obtain ka kb kc where k: "round2 a = of_int ka / 100" "round2 b = of_int kb / 100"
      "round2 c = of_int kc / 100"
    using round2_is_cents by metis
  have "round2 a + round2 b + round2 c + d = of_int (ka + kb + kc + 7) / 100"
    using that by (simp add: k)
  then show ?thesis
    by (simp only: round2_cents)
qed

lemma simulated_month_to_date:
  assumes "draws_in_range w"
  shows "month_to_date (fetch_simulated_costs w) =
     round2 (148/100 * random_uniform w 0) + round2 (34/100 * random_uniform w 1)
       + round2 (24/100 * random_uniform w 2) + 7/100"
proof -
  define c0 where "c0 = round2 (148/100 * random_uniform w 0)"
  define c1 where "c1 = round2 (34/100 * random_uniform w 1)"
  define c2 where "c2 = round2 (24/100 * random_uniform w 2)"
  have tab: "randomize w 0 simulated_service_costs =
     [(''AWS WAF'', c0), (''AWS Amplify'', c1), (''AWS Cost Explorer'', c2),
      (''Amazon EC2 Container Registry (ECR)'', 4/100),
      (''Amazon Bedrock AgentCore'', 1/100),
      (''Amazon S3'', 1/100),
      (''Amazon CloudWatch'', 1/100)]"
    by (simp only: randomized_table c0_def c1_def c2_def simulated_costs_between(4-7) [OF assms])
  have "sum_list (map snd (randomize w 0 simulated_service_costs)) = c0 + c1 + c2 + 7/100"
    by (simp add: tab)
  then have "month_to_date (fetch_simulated_costs w) = round2 (c0 + c1 + c2 + 7/100)"
    by (simp add: fetch_simulated_costs_def Let_def)
  also have "\<dots> = c0 + c1 + c2 + 7/100"
    unfolding c0_def c1_def c2_def by (rule round2_sum_cents) simp
  finally show ?thesis
    by (simp only: c0_def c1_def c2_def)
qed

lemma base_total_value: "base_total = 213/100"
  by (simp add: base_total_def simulated_service_costs_def)

lemma simulated_total_within:
  assumes "draws_in_range w"
  shows "within_ten_percent base_total (month_to_date (fetch_simulated_costs w))"
  using simulated_costs_between(1-3) [OF assms]
  by (simp add: simulated_month_to_date [OF assms] base_total_value within_ten_percent_def)

lemma set_ranking_fetch_simulated_costs:
  "set (ranking (fetch_simulated_costs w)) = set (randomize w 0 simulated_service_costs)"
  by (simp only: ranking_fetch_simulated_costs set_sorted_reverse)

lemma in_list7:
  assumes "x \<in> set [a0, a1, a2, a3, a4, a5, a6]"
  obtains "x = a0" | "x = a1" | "x = a2" | "x = a3" | "x = a4" | "x = a5" | "x = a6"
  using assms by auto

lemma base_costs:
  "map_of simulated_service_costs ''AWS WAF'' = Some (148/100)"
  "map_of simulated_service_costs ''AWS Amplify'' = Some (34/100)"
  "map_of simulated_service_costs ''AWS Cost Explorer'' = Some (24/100)"
  "map_of simulated_service_costs ''Amazon EC2 Container Registry (ECR)'' = Some (4/100)"
  "map_of simulated_service_costs ''Amazon Bedrock AgentCore'' = Some (1/100)"
  "map_of simulated_service_costs ''Amazon S3'' = Some (1/100)"
  "map_of simulated_service_costs ''Amazon CloudWatch'' = Some (1/100)"
  by (simp_all add: simulated_service_costs_def)

lemma near_base_WAF:
  assumes "133/100 \<le> (c::real) \<and> c \<le> 163/100"
  shows "\<exists>base. Some (148/100) = Some base
             \<and> 9/10 * base - 1/200 \<le> c \<and> c \<le> 11/10 * base + 1/200"
  using assms by (intro exI [of _ "148/100"]) simp

lemma near_base_exact:
  assumes "9/10 * b \<le> (c::real) \<and> c \<le> 11/10 * b"
  shows "\<exists>base. Some b = Some base
             \<and> 9/10 * base - 1/200 \<le> c \<and> c \<le> 11/10 * base + 1/200
             \<and> within_ten_percent base c"
  using assms by (simp add: within_ten_percent_def)

lemma simulated_entry_near_base:
  assumes "draws_in_range w" "(name, cost) \<in> set (randomize w 0 simulated_service_costs)"
  shows "\<exists>base. map_of simulated_service_costs name = Some base
             \<and> 9/10 * base - 1/200 \<le> cost \<and> cost \<le> 11/10 * base + 1/200
             \<and> (name \<noteq> ''AWS WAF'' \<longrightarrow> within_ten_percent base cost)"
proof -
  note b = simulated_costs_between [OF assms(1)]
  from assms(2) show ?thesis
    unfolding randomized_table
  proof (cases rule: in_list7)
    case 1
    then have "name = ''AWS WAF''" "cost = round2 (148/100 * random_uniform w 0)"
      by (simp_all only: prod.inject)
    with near_base_WAF [OF b(1)] show ?thesis
      by (simp only: base_costs) blast
  next
    case 2
    then have "name = ''AWS Amplify''" "cost = round2 (34/100 * random_uniform w 1)"
      by (simp_all only: prod.inject)
    moreover have "9/10 * (34/100) \<le> cost \<and> cost \<le> 11/10 * (34/100)"
      using b(2) calculation(2) by simp
    ultimately show ?thesis
      using near_base_exact [of "34/100" cost] by (simp only: base_costs) blast
  next
    case 3
    then have "name = ''AWS Cost Explorer''" "cost = round2 (24/100 * random_uniform w 2)"
      by (simp_all only: prod.inject)
    moreover have "9/10 * (24/100) \<le> cost \<and> cost \<le> 11/10 * (24/100)"
      using b(3) calculation(2) by simp
    ultimately show ?thesis
      using near_base_exact [of "24/100" cost] by (simp only: base_costs) blast
  next
    case 4
    then have "name = ''Amazon EC2 Container Registry (ECR)''" "cost = round2 (4/100 * random_uniform w 3)"
      by (simp_all only: prod.inject)
    moreover have "9/10 * (4/100) \<le> cost \<and> cost \<le> 11/10 * (4/100)"
      using b(4) calculation(2) by simp
    ultimately show ?thesis
      using near_base_exact [of "4/100" cost] by (simp only: base_costs) blast
  next
    case 5
    then have "name = ''Amazon Bedrock AgentCore''" "cost = round2 (1/100 * random_uniform w 4)"
      by (simp_all only: prod.inject)
    moreover have "9/10 * (1/100) \<le> cost \<and> cost \<le> 11/10 * (1/100)"
      using b(5) calculation(2) by simp
    ultimately show ?thesis
      using near_base_exact [of "1/100" cost] by (simp only: base_costs) blast
  next
    case 6
    then have "name = ''Amazon S3''" "cost = round2 (1/100 * random_uniform w 5)"
      by (simp_all only: prod.inject)
    moreover have "9/10 * (1/100) \<le> cost \<and> cost \<le> 11/10 * (1/100)"
      using b(6) calculation(2) by simp
    ultimately show ?thesis
      using near_base_exact [of "1/100" cost] by (simp only: base_costs) blast
  next
    case 7
    then have "name = ''Amazon CloudWatch''" "cost = round2 (1/100 * random_uniform w 6)"
      by (simp_all only: prod.inject)
    moreover have "9/10 * (1/100) \<le> cost \<and> cost \<le> 11/10 * (1/100)"
      using b(7) calculation(2) by simp
    ultimately show ?thesis
      using near_base_exact [of "1/100" cost] by (simp only: base_costs) blast
  qed
qed

section \<open>Facts about the aggregation by service\<close>

lemma map_of_dict_add:
  "map_of (dict_add add d k v) = (map_of d)(k \<mapsto> add (entry_of d k) v)"
  by (induction add d k v rule: dict_add.induct) (auto simp: entry_of_def fun_eq_iff)

lemma keys_dict_add: "set (map fst (dict_add add d k v)) = insert k (set (map fst d))"
  by (induction add d k v rule: dict_add.induct) auto

lemma distinct_dict_add:
  "distinct (map fst d) \<Longrightarrow> distinct (map fst (dict_add add d k v))"
  by (induction add d k v rule: dict_add.induct) (auto simp: keys_dict_add simp flip: set_map)

lemma entry_of_dict_add:
  "entry_of (dict_add add d k v) n = (if n = k then add (entry_of d k) v else entry_of d n)"
  by (simp add: entry_of_def map_of_dict_add)

lemma service_groups_loop_total:
  "service_groups_loop w gs m = Inr m' \<Longrightarrow> distinct (map fst m) \<Longrightarrow>
     distinct (map fst m')
     \<and> entry_of m' n
         = foldl (float_add w) (entry_of m n)
             (map Amount (filter (\<lambda>g. first_key g = Some n) gs))"
proof (induction gs arbitrary: m)
  case Nil
  then show ?case by simp
next
  case (Cons g gs)
  show ?case
  proof (cases "Keys g")
    case Nil
    with Cons.prems show ?thesis by (simp add: index_error_def)
  next
    case (Cons k ks)
    with Cons.prems
    have run: "service_groups_loop w gs (dict_add (float_add w) m k (Amount g)) = Inr m'"
      by simp
    from Cons.IH [OF run distinct_dict_add [OF Cons.prems(2)]] Cons
    show ?thesis
      by (simp add: entry_of_dict_add first_key_def)
  qed
qed

lemma service_results_loop_total:
  "service_results_loop w rs m = Inr m' \<Longrightarrow> distinct (map fst m) \<Longrightarrow>
     distinct (map fst m')
     \<and> entry_of m' n
         = foldl (float_add w) (entry_of m n)
             (map Amount (filter (\<lambda>g. first_key g = Some n) (concat rs)))"
proof (induction rs arbitrary: m)
  case Nil
  then show ?case by simp
next
  case (Cons r rs)
  then obtain m1 where 1: "service_groups_loop w r m = Inr m1"
    and 2: "service_results_loop w rs m1 = Inr m'"
    by (auto split: sum.splits)
  from service_groups_loop_total [OF 1 Cons.prems(2), of n]
  have d1: "distinct (map fst m1)"
    and e1: "entry_of m1 n
       = foldl (float_add w) (entry_of m n) (map Amount (filter (\<lambda>g. first_key g = Some n) r))"
    by simp_all
  from Cons.IH [OF 2 d1] e1 show ?case by simp
qed

lemma usage_groups_loop_skip:
  "\<not> (\<exists>k ks. Keys g = k # ''Usage'' # ks \<and> Amount g > Finite 0) \<Longrightarrow>
     usage_groups_loop w (g # gs) m = usage_groups_loop w gs m"
  by (auto split: list.splits)

lemma is_usage_of_iff:
  "is_usage_of n g \<longleftrightarrow> (\<exists>ks. Keys g = n # ''Usage'' # ks \<and> Amount g > Finite 0)"
  by (auto simp: is_usage_of_def split: list.splits)

lemma usage_groups_loop_total:
  "distinct (map fst m) \<Longrightarrow>
     distinct (map fst (usage_groups_loop w gs m))
     \<and> entry_of (usage_groups_loop w gs m) n
         = foldl (float_add w) (entry_of m n) (map Amount (filter (is_usage_of n) gs))"
proof (induction gs arbitrary: m)
  case Nil
  then show ?case by simp
next
  case (Cons g gs)
  show ?case
  proof (cases "\<exists>k ks. Keys g = k # ''Usage'' # ks \<and> Amount g > Finite 0")
    case True
    then obtain k ks where keys: "Keys g = k # ''Usage'' # ks" and pos: "Amount g > Finite 0"
      by blast
    then have step: "usage_groups_loop w (g # gs) m
        = usage_groups_loop w gs (dict_add (float_add w) m k (Amount g))"
      by simp
    have "is_usage_of n g \<longleftrightarrow> n = k"
      using keys pos by (auto simp: is_usage_of_iff)
    with Cons.IH [OF distinct_dict_add [OF Cons.prems], of "float_add w" k "Amount g"]
    show ?thesis
      unfolding step by (simp add: entry_of_dict_add)
  next
    case False
    then have no: "\<not> is_usage_of n g"
      by (auto simp: is_usage_of_iff)
    from Cons.IH [OF Cons.prems] no show ?thesis
      unfolding usage_groups_loop_skip [OF False] by simp
  qed
qed

lemma usage_results_loop_total:
  "distinct (map fst m) \<Longrightarrow>
     distinct (map fst (usage_results_loop w rs m))
     \<and> entry_of (usage_results_loop w rs m) n
         = foldl (float_add w) (entry_of m n) (map Amount (filter (is_usage_of n) (concat rs)))"
proof (induction rs arbitrary: m)
  case Nil
  then show ?case by simp
next
  case (Cons r rs)
  from usage_groups_loop_total [OF Cons.prems, of w r n]
  have d1: "distinct (map fst (usage_groups_loop w r m))"
    and e1: "entry_of (usage_groups_loop w r m) n
         = foldl (float_add w) (entry_of m n) (map Amount (filter (is_usage_of n) r))"
    by simp_all
  from Cons.IH [OF d1] e1 show ?case by simp
qed

lemma charged_services_entry:
  "(n, c) \<in> set (charged_services m) \<Longrightarrow>
     \<exists>a. (n, a) \<in> set m \<and> a > negligible_threshold \<and> c = round2d a"
  by (induction m rule: charged_services.induct) (auto split: if_splits)

lemma entry_of_member:
  "distinct (map fst m) \<Longrightarrow> (n, a) \<in> set m \<Longrightarrow> entry_of m n = a"
  by (simp add: entry_of_def)

section \<open>What a returned snapshot was computed from\<close>

lemma ranking_snapshot:
  "ranking \<lparr>month_to_date = t, top_services = with_activity a xs, last_updated = u\<rparr> = xs"
  by (simp add: ranking_def ranking_with_activity)

lemma fetch_aws_costs_before_credits_Inr:
  assumes "fetch_aws_costs_before_credits w = Inr d"
  shows "\<exists>response'. get_cost_and_usage w (usage_query w) = Inr response'
     \<and> ranking d = get_top_services (charged_services (usage_results_loop w response' [])) default_limit"
  using assms
  unfolding fetch_aws_costs_before_credits_def fetch_aws_costs_before_credits_try_def
    usage_query_def Let_def
  by (auto simp: ranking_snapshot split: sum.splits option.splits if_splits prod.splits)

lemma fetch_november_costs_Inr:
  assumes "fetch_november_costs w = Inr d"
  shows "\<exists>response m. get_cost_and_usage w november_query = Inr response
     \<and> service_results_loop w response [] = Inr m
     \<and> ranking d = get_top_services (charged_services m) default_limit"
  using assms
  unfolding fetch_november_costs_def fetch_november_costs_try_def november_query_def Let_def
  by (auto simp: ranking_snapshot split: sum.splits option.splits if_splits prod.splits)

lemma fetch_cost_explorer_services_default:
  "fetch_cost_explorer_services w None None = [] \<or>
   (\<exists>response m. get_cost_and_usage w (service_query w) = Inr response
      \<and> service_results_loop w response [] = Inr m
      \<and> fetch_cost_explorer_services w None None = charged_services m)"
  unfolding fetch_cost_explorer_services_def fetch_cost_explorer_services_try_def
    service_query_def Let_def
  by (auto split: sum.splits option.splits if_splits prod.splits)

lemma fetch_cloudwatch_billing_metrics_Inr:
  assumes "fetch_cloudwatch_billing_metrics w = Inr d"
  shows "\<exists>datapoints. get_metric_statistics w None = Inr datapoints
     \<and> month_to_date d = round2d (aggregate_total datapoints)
     \<and> ranking d = get_top_services (billing_breakdown w datapoints) default_limit"
  using assms
  unfolding fetch_cloudwatch_billing_metrics_def fetch_cloudwatch_billing_metrics_try_def
    aggregate_total_def billing_breakdown_def from_fallback_def Let_def
  by (auto simp: ranking_snapshot split: sum.splits option.splits if_splits prod.splits)

lemma ranked_ok:
  "descending (get_top_services xs default_limit)
   \<and> int (length (get_top_services xs default_limit)) \<le> default_limit"
  using get_top_services_length [of default_limit xs]
  by (simp add: get_top_services_descending default_limit_def)

lemma length_ranking: "length (ranking d) = length (top_services d)"
  by (simp add: ranking_def)

section \<open>Facts about the breakdowns\<close>

lemma billing_services_loop_eq:
  "billing_services_loop w ss acc =
     acc @ concat (map (\<lambda>s. case metric_of w s of
                               None \<Rightarrow> []
                             | Some cost \<Rightarrow>
                                 if cost > negligible_threshold
                                 then [(readable_name s, round2d cost)] else []) ss)"
  by (induction w ss acc rule: billing_services_loop.induct)
     (auto simp: metric_of_def split: sum.splits option.splits)

lemma billing_services_loop_entry:
  assumes "entry \<in> set (billing_services_loop w ss [])"
  shows "\<exists>service \<in> set ss. fst entry = readable_name service
        \<and> (case metric_of w service of
             None \<Rightarrow> False
           | Some cost \<Rightarrow> cost > negligible_threshold \<and> snd entry = round2d cost)"
proof -
  from assms obtain s where s: "s \<in> set ss"
    and e: "entry \<in> set (case metric_of w s of
                               None \<Rightarrow> []
                             | Some cost \<Rightarrow>
                                 if cost > negligible_threshold
                                 then [(readable_name s, round2d cost)] else [])"
    unfolding billing_services_loop_eq by auto
  from e obtain cost where "metric_of w s = Some cost" "cost > negligible_threshold"
      "entry = (readable_name s, round2d cost)"
    by (cases "metric_of w s") (auto split: if_splits)
  with s show ?thesis
    by (intro bexI [of _ s]) simp_all
qed





lemma charged_services_charged:
  assumes "distinct (map fst m)" "\<And>n. entry_of m n = aggregated n"
    "entry \<in> set (charged_services m)"
  shows "charged aggregated entry"
proof -
  obtain n c where entry: "entry = (n, c)" by (cases entry)
  with assms(3) charged_services_entry [of n c m]
  obtain a where a: "(n, a) \<in> set m" "a > negligible_threshold" "c = round2d a"
    by blast
  from entry_of_member [OF assms(1) a(1)] assms(2) have "aggregated n = a" by simp
  with a entry show ?thesis
    by (simp add: charged_def)
qed

lemma service_results_loop_charged:
  assumes "service_results_loop w response [] = Inr m" "entry \<in> set (charged_services m)"
  shows "charged (service_total w response) entry"
proof (rule charged_services_charged [OF _ _ assms(2)])
  show "distinct (map fst m)"
    using service_results_loop_total [OF assms(1)] by simp
  show "entry_of m n = service_total w response n" for n
    using service_results_loop_total [OF assms(1), of n]
    by (simp add: service_total_def float_sum_def entry_of_def)
qed

lemma usage_results_loop_charged:
  assumes "entry \<in> set (charged_services (usage_results_loop w response [])) "
  shows "charged (usage_by_service w response) entry"
proof (rule charged_services_charged [OF _ _ assms])
  show "distinct (map fst (usage_results_loop w response []))"
    using usage_results_loop_total [of "[]" w response] by simp
  show "entry_of (usage_results_loop w response []) n = usage_by_service w response n" for n
    using usage_results_loop_total [of "[]" w response n]
    by (simp add: usage_by_service_def float_sum_def entry_of_def)
qed

lemma fetch_cost_explorer_services_charged:
  assumes "entry \<in> set (fetch_cost_explorer_services w None None)"
  shows "\<exists>response. get_cost_and_usage w (service_query w) = Inr response
           \<and> charged (service_total w response) entry"
  using fetch_cost_explorer_services_default [of w] assms service_results_loop_charged
  by fastforce

lemma billing_breakdown_charged:
  assumes "entry \<in> set (billing_breakdown w datapoints)"
  shows "metric_charged w entry
     \<or> (\<exists>response. get_cost_and_usage w (service_query w) = Inr response
           \<and> charged (service_total w response) entry)"
  using assms billing_services_loop_entry [of entry w services_to_check]
    fetch_cost_explorer_services_charged [of entry w]
  unfolding billing_breakdown_def metric_charged_def
  by (auto split: if_splits)

lemma simulated_charged:
  assumes "draws_in_range w" "entry \<in> set (randomize w 0 simulated_service_costs)"
  shows "Finite (snd entry) > negligible_threshold"
proof -
  obtain n c where entry: "entry = (n, c)" by (cases entry)
  from simulated_entry_near_base [OF assms(1), of n c] assms(2) entry
  obtain base where b: "map_of simulated_service_costs n = Some base"
      "9/10 * base - 1/200 \<le> c"
    by blast
  from map_of_SomeD [OF b(1)] have "1/100 \<le> base"
    by (auto simp: simulated_service_costs_def)
  with b(2) entry show ?thesis
    by (simp add: negligible_threshold_def less_double_def less_eq_double_def)
qed

section \<open>Facts about the activity augmenter\<close>

lemma activity_loop_step:
  "activity_loop w i (n # rest) activity
     = activity_loop w (Suc i) rest (activity(n \<mapsto> lookup_count w i n))"
  by (simp add: lookup_count_def split: sum.splits)

lemma activity_loop_other:
  "k \<notin> set names \<Longrightarrow> activity_loop w i names activity k = activity k"
proof (induction names arbitrary: i activity)
  case Nil
  then show ?case by simp
next
  case (Cons n rest)
  then show ?case
    unfolding activity_loop_step by simp
qed

lemma activity_loop_nth:
  "j < length names \<Longrightarrow> names ! j \<notin> set (drop (Suc j) names) \<Longrightarrow>
     activity_loop w i names activity (names ! j) = Some (lookup_count w (i + j) (names ! j))"
proof (induction names arbitrary: i j activity)
  case Nil
  then show ?case by simp
next
  case (Cons n rest)
  show ?case
  proof (cases j)
    case 0
    with Cons.prems show ?thesis
      unfolding activity_loop_step by (simp add: activity_loop_other)
  next
    case (Suc j')
    with Cons.prems Cons.IH [of j' "Suc i"] show ?thesis
      unfolding activity_loop_step by simp
  qed
qed

lemma dom_activity_loop:
  "dom (activity_loop w i names activity) = dom activity \<union> set names"
proof (induction names arbitrary: i activity)
  case Nil
  then show ?case by simp
next
  case (Cons n rest)
  show ?case
    unfolding activity_loop_step Cons.IH by auto
qed

lemma zero_activity_apply:
  "zero_activity names k = (if k \<in> set names then Some 0 else None)"
  by (induction names) (auto simp: zero_activity_def)

lemma fetch_service_activity_available:
  "cloudtrail_available w \<Longrightarrow>
     fetch_service_activity w names = activity_loop w 0 names Map.empty"
  by (simp add: fetch_service_activity_def fetch_service_activity_try_def cloudtrail_available_def)

lemma fetch_service_activity_unavailable:
  "\<not> cloudtrail_available w \<Longrightarrow> fetch_service_activity w names = zero_activity names"
  by (auto simp: fetch_service_activity_def fetch_service_activity_try_def cloudtrail_available_def
      import_error_def split: exn.splits)

lemma replace_from_absent:
  "\<not> contains old s \<Longrightarrow> replace_from old new s = s"
  by (induction old new s rule: replace_from.induct) auto

lemma replace_from_front:
  "old \<noteq> [] \<Longrightarrow> replace_from old new (old @ s) = new @ replace_from old new s"
  by (cases old) simp_all

lemma replace_space:
  "replace_from '' '' [] s = without_spaces s"
  by (induction s) (simp_all add: without_spaces_def)

lemma amazon_not_in_aws:
  "contains ''amazon '' (''aws '' @ s) = contains ''amazon '' s"
  by simp

lemma strip_prefix_cases:
  obtains (stripped) rest where "s = p @ rest" "strip_prefix p s = rest"
    | (kept) "\<not> prefix p s" "strip_prefix p s = s"
  by (cases "prefix p s") (auto simp: strip_prefix_def prefix_def)

lemma remove_prefixes_in_front:
  assumes "\<not> contains ''amazon '' (strip_prefix ''aws '' (strip_prefix ''amazon '' l))"
    and "\<not> contains ''aws '' (strip_prefix ''aws '' (strip_prefix ''amazon '' l))"
  shows "replace_from ''aws '' [] (replace_from ''amazon '' [] l)
           = strip_prefix ''aws '' (strip_prefix ''amazon '' l)"
proof (cases rule: strip_prefix_cases [where s = l and p = "''amazon ''"])
  case (stripped l1)
  note outer = this
  have first: "replace_from ''amazon '' [] l = replace_from ''amazon '' [] l1"
    unfolding outer(1) by (subst replace_from_front) simp_all
  show ?thesis
  proof (cases rule: strip_prefix_cases [where s = l1 and p = "''aws ''"])
    case (stripped rest)
    from assms have absent: "\<not> contains ''amazon '' rest" "\<not> contains ''aws '' rest"
      by (simp_all only: outer(2) stripped(2) simp_thms)
    then have "\<not> contains ''amazon '' l1"
      unfolding stripped(1) by (simp only: amazon_not_in_aws simp_thms)
    then have "replace_from ''amazon '' [] l1 = ''aws '' @ rest"
      unfolding stripped(1) by (rule replace_from_absent)
    moreover have "replace_from ''aws '' [] (''aws '' @ rest) = rest"
      by (subst replace_from_front) (simp_all add: replace_from_absent [OF absent(2)])
    ultimately show ?thesis
      by (simp only: first outer(2) stripped(2))
  next
    case kept
    from assms have absent: "\<not> contains ''amazon '' l1" "\<not> contains ''aws '' l1"
      by (simp_all only: outer(2) kept(2) simp_thms)
    from replace_from_absent [OF absent(1)] replace_from_absent [OF absent(2)]
    show ?thesis
      by (simp only: first outer(2) kept(2))
  qed
next
  case kept
  note outer = this
  show ?thesis
  proof (cases rule: strip_prefix_cases [where s = l and p = "''aws ''"])
    case (stripped rest)
    from assms have absent: "\<not> contains ''amazon '' rest" "\<not> contains ''aws '' rest"
      by (simp_all only: outer(2) stripped(2) simp_thms)
    then have "\<not> contains ''amazon '' l"
      unfolding stripped(1) by (simp only: amazon_not_in_aws simp_thms)
    then have "replace_from ''amazon '' [] l = ''aws '' @ rest"
      unfolding stripped(1) by (rule replace_from_absent)
    moreover have "replace_from ''aws '' [] (''aws '' @ rest) = rest"
      by (subst replace_from_front) (simp_all add: replace_from_absent [OF absent(2)])
    ultimately show ?thesis
      by (simp only: outer(2) stripped(2))
  next
    case kept
    from assms have absent: "\<not> contains ''amazon '' l" "\<not> contains ''aws '' l"
      by (simp_all only: outer(2) kept(2) simp_thms)
    from replace_from_absent [OF absent(1)] replace_from_absent [OF absent(2)]
    show ?thesis
      by (simp only: outer(2) kept(2))
  qed
qed

lemma derived_event_source_eq:
  "derived_event_source service_name =
     without_spaces (replace_from ''aws '' [] (replace_from ''amazon '' [] (lower service_name)))
       @ ''.amazonaws.com''"
  by (simp add: derived_event_source_def replace_def replace_space)

lemma derived_agrees:
  "prefixes_in_front_only service_name \<Longrightarrow>
     derived_event_source service_name = claimed_event_source service_name"
proof -
  assume "prefixes_in_front_only service_name"
  then have "\<not> contains ''amazon ''
        (strip_prefix ''aws '' (strip_prefix ''amazon '' (lower service_name)))"
    and "\<not> contains ''aws ''
        (strip_prefix ''aws '' (strip_prefix ''amazon '' (lower service_name)))"
    by (simp_all add: prefixes_in_front_only_def Let_def)
  then have "replace_from ''aws '' [] (replace_from ''amazon '' [] (lower service_name))
           = strip_prefix ''aws '' (strip_prefix ''amazon '' (lower service_name))"
    by (rule remove_prefixes_in_front)
  then show ?thesis
    by (simp only: derived_event_source_eq claimed_event_source_def)
qed

lemma mapped_nonempty: "(name, es) \<in> set SERVICE_TO_EVENT_SOURCE \<Longrightarrow> es \<noteq> []"
  by (auto simp: SERVICE_TO_EVENT_SOURCE_def)

section \<open>Facts about the start-up\<close>

lemma fetch_aws_costs_eq: "fetch_aws_costs w = fetch_aws_costs_before_credits w"
  by (simp add: fetch_aws_costs_def split: sum.splits)

lemma credentials_error_raised:
  "fetch_aws_costs_before_credits_try w = Inl (Exception msg) \<Longrightarrow> credentials_class msg \<Longrightarrow>
     fetch_aws_costs w = Inl (Exception credentials_message)"
  by (simp add: fetch_aws_costs_eq fetch_aws_costs_before_credits_def credentials_class_def)

lemma select_fetcher_simulated:
  "use_simulated_data cfg \<Longrightarrow> select_fetcher cfg w = (Fetch_simulated_costs, [Print_using_simulated])"
  by (simp add: select_fetcher_def)

lemma select_fetcher_live_error:
  "live_mode cfg \<Longrightarrow> fetch_aws_costs w = Inl e \<Longrightarrow>
     select_fetcher cfg w =
       (Fetch_simulated_costs,
        [Print_attempting, Called Fetch_aws_costs, Print_aws_error (str e),
         Error_dialog ''AWS Credentials Error'' (str e @ simulated_instead_text)])"
  by (simp add: select_fetcher_def current_try_def live_mode_def Let_def)

lemma select_fetcher_live_zero:
  "live_mode cfg \<Longrightarrow> emoji_printable w \<Longrightarrow> fetch_aws_costs w = Inr d \<Longrightarrow>
     month_to_date d = Finite 0 \<Longrightarrow>
     select_fetcher cfg w =
       (Fetch_simulated_costs, [Print_attempting, Called Fetch_aws_costs, Print_zero_warning])"
  by (simp add: select_fetcher_def current_try_def live_mode_def emoji_printable_def)

lemma select_fetcher_live_nonzero:
  "live_mode cfg \<Longrightarrow> emoji_printable w \<Longrightarrow> fetch_aws_costs w = Inr d \<Longrightarrow>
     month_to_date d \<noteq> Finite 0 \<Longrightarrow>
     select_fetcher cfg w =
       (Fetch_aws_costs,
        [Print_attempting, Called Fetch_aws_costs, Print_connected (month_to_date d)])"
  by (simp add: select_fetcher_def current_try_def live_mode_def emoji_printable_def)

lemma select_fetcher_live_unprintable:
  "live_mode cfg \<Longrightarrow> emoji_print w = Some e \<Longrightarrow> fetch_aws_costs w = Inr d \<Longrightarrow>
     select_fetcher cfg w =
       (Fetch_simulated_costs,
        [Print_attempting, Called Fetch_aws_costs, Print_aws_error (str e),
         Error_dialog ''AWS Credentials Error'' (str e @ simulated_instead_text)])"
  by (simp add: select_fetcher_def current_try_def live_mode_def Let_def)

lemma select_fetcher_live_probes_once:
  assumes "live_mode cfg"
  shows "count_list (snd (select_fetcher cfg w)) (Called Fetch_aws_costs) = 1"
  using assms
  by (auto simp: select_fetcher_def current_try_def live_mode_def Let_def
      split: sum.splits option.splits)

lemma main_starts_selected:
  "\<exists>out. main cfg w None
      = (Some (start (UpdateScheduler (fst (select_fetcher cfg w)) (refresh_interval cfg))), out)"
  by (simp add: main_def split: prod.splits)

lemma tick_started: "tick (start (UpdateScheduler f secs)) = Some f"
  by (simp add: tick_def start_def UpdateScheduler_def)

section \<open>Claims\<close>

text \<open>
  C1. Whenever \<open>fetch_aws_costs_before_credits\<close> returns a snapshot, the ledger grouped
  by record type was read, and the snapshot's \<open>month_to_date\<close> is the sum of the amounts
  of that ledger whose record type is "Usage", rounded to 2 decimals: no "Credit" amount
  (and no amount of any other record type) enters it, whatever the net total is. The sum
  is the sum of doubles the source computes: the machine adds the amounts one after the
  other, in the order of the ledger.
\<close>

theorem C1_month_to_date_is_gross_usage:
  "fetch_aws_costs_before_credits w = Inr snapshot \<Longrightarrow>
     \<exists>response. get_cost_and_usage w (record_type_query w) = Inr response
        \<and> month_to_date snapshot = round2d (usage_total w response)"
  unfolding fetch_aws_costs_before_credits_def fetch_aws_costs_before_credits_try_def
    record_type_query_def usage_total_def float_sum_def Let_def
  by (auto split: sum.splits option.splits if_splits prod.splits dest!: record_results_loop_usage)

text \<open>
  In the account with credits the usage is 100 and the net total is 50; the snapshot
  reports 100. In the account with the two usage lines 0.001 and 0.014 the snapshot
  reports 0.01, the machine's sum rounded, where the exact sum would round to 0.02.
\<close>

theorem C1_month_to_date_is_gross_usage_witness:
  "fetch_aws_costs_before_credits credited_account
     = Inr \<lparr>month_to_date = Finite 100,
            top_services = [(''Amazon S3'', Finite 60, 3), (''AWS Lambda'', Finite 40, 3)],
            last_updated = 0\<rparr>
   \<and> get_cost_and_usage credited_account (record_type_query credited_account) = Inr credited_ledger
   \<and> Finite 100 = round2d (usage_total credited_account credited_ledger)
   \<and> float_add credited_account (usage_total credited_account credited_ledger)
        (credit_total credited_account credited_ledger) = Finite 50
   \<and> fetch_aws_costs_before_credits cents_account
       = Inr \<lparr>month_to_date = Finite (1/100), top_services = [], last_updated = 0\<rparr>
   \<and> usage_total cents_account cents_ledger = Finite (1080863910568919 / 2 ^ 56)
   \<and> round2 (1152921504606847 / 2 ^ 60 + 8070450532247929 / 2 ^ 59) = 2/100"
proof -
  have run: "fetch_aws_costs_before_credits credited_account
     = Inr \<lparr>month_to_date = Finite 100,
            top_services = [(''Amazon S3'', Finite 60, 3), (''AWS Lambda'', Finite 40, 3)],
            last_updated = 0\<rparr>"
    by code_simp
  have ledger: "get_cost_and_usage credited_account (record_type_query credited_account)
     = Inr credited_ledger"
    by (simp add: credited_account_def record_type_query_def)
  have net: "float_add credited_account (usage_total credited_account credited_ledger)
        (credit_total credited_account credited_ledger) = Finite 50"
    by code_simp
  have cents: "fetch_aws_costs_before_credits cents_account
       = Inr \<lparr>month_to_date = Finite (1/100), top_services = [], last_updated = 0\<rparr>"
    by code_simp
  have machine: "usage_total cents_account cents_ledger = Finite (1080863910568919 / 2 ^ 56)"
    by code_simp
  have exact: "round2 (1152921504606847 / 2 ^ 60 + 8070450532247929 / 2 ^ 59) = 2/100"
    by code_simp
  from C1_month_to_date_is_gross_usage [OF run] ledger
  have gross: "Finite 100 = round2d (usage_total credited_account credited_ledger)"
    by simp
  from run ledger gross net cents machine exact show ?thesis
    by - (intro conjI; assumption)
qed

text \<open>
  C2. For every list of (name, cost) pairs and every limit \<open>N\<close> (a count, so not
  negative: every source passes the default 10), \<open>get_top_services\<close> returns a list in
  descending order of cost, of length at most \<open>N\<close>, in which the entries of any one cost
  are the first entries of that cost of the input, in the input's order. It returns the
  top \<open>N\<close>: \<open>N\<close> entries of the input, or all of them when there are fewer, and no entry
  it leaves out costs more than one it returns. The result is a value computed from the
  arguments alone, and it is empty on empty input (for every limit).
\<close>

theorem C2_get_top_services:
  "0 \<le> N \<Longrightarrow>
     descending (get_top_services services N)
     \<and> int (length (get_top_services services N)) \<le> N
     \<and> prefix (filter (\<lambda>y. snd y = c) (get_top_services services N))
               (filter (\<lambda>y. snd y = c) services)
     \<and> length (get_top_services services N) = min (nat N) (length services)
     \<and> mset (get_top_services services N) \<subseteq># mset services
     \<and> (\<forall>x \<in># mset services - mset (get_top_services services N).
           \<forall>y \<in> set (get_top_services services N). snd x \<le> snd y)
     \<and> get_top_services [] M = []"
proof (intro conjI ballI)
  assume N: "0 \<le> N"
  show "descending (get_top_services services N)"
    by (rule get_top_services_descending)
  show "int (length (get_top_services services N)) \<le> N"
    using get_top_services_length [OF N, of services] N by linarith
  show "prefix (filter (\<lambda>y. snd y = c) (get_top_services services N))
               (filter (\<lambda>y. snd y = c) services)"
    by (rule get_top_services_stable)
  show "length (get_top_services services N) = min (nat N) (length services)"
    using N by (rule get_top_services_length_eq)
  show "mset (get_top_services services N) \<subseteq># mset services"
    using N by (rule get_top_services_subset)
  show "snd x \<le> snd y"
    if "x \<in># mset services - mset (get_top_services services N)"
      "y \<in> set (get_top_services services N)" for x y
    using N that by (rule get_top_services_top)
  show "get_top_services [] M = []"
    by (rule get_top_services_Nil)
qed

text \<open>
  Four services and the limit 2: the two services at 3 are returned, in the order of the
  input, and the two at 1 are left out.
\<close>

theorem C2_get_top_services_witness:
  "(0::int) \<le> 2
   \<and> get_top_services [(''a'', 1::real), (''b'', 3), (''c'', 1), (''d'', 3)] 2 = [(''b'', 3), (''d'', 3)]
   \<and> descending (get_top_services [(''a'', 1::real), (''b'', 3), (''c'', 1), (''d'', 3)] 2)
   \<and> int (length (get_top_services [(''a'', 1::real), (''b'', 3), (''c'', 1), (''d'', 3)] 2)) \<le> 2
   \<and> length (get_top_services [(''a'', 1::real), (''b'', 3), (''c'', 1), (''d'', 3)] 2) = 2"
  using C2_get_top_services [of 2 "[(''a'', 1::real), (''b'', 3), (''c'', 1), (''d'', 3)]" 3 0]
  by (simp add: get_top_services_def sorted_reverse_def slice_to_def)

text \<open>
  C3. The selection at start-up, in the live current-period mode, on an output that
  cannot encode the emoji. The probe \<open>fetch_aws_costs\<close> succeeds with a total of 100,
  \<open>fetcher = fetch_aws_costs\<close> is executed, and the \<open>print\<close> of the line "Connected to
  AWS", which starts with U+2705 and stands inside the \<open>try\<close>, raises: the handler
  prints the error, shows the dialog "AWS Credentials Error" and assigns
  \<open>fetch_simulated_costs\<close>. The scheduler \<open>main\<close> starts holds the simulated source, and
  that is what every tick invokes, where the claim has the probed live strategy
  committed. On an output that prints the emoji the same account selects
  \<open>fetch_aws_costs\<close>.
\<close>

theorem C3_unprintable_emoji_discards_live_fetcher:
  "live_mode live_config
   \<and> fetch_aws_costs legacy_console
       = Inr \<lparr>month_to_date = Finite 100,
              top_services = [(''Amazon S3'', Finite 60, 3), (''AWS Lambda'', Finite 40, 3)],
              last_updated = 0\<rparr>
   \<and> emoji_print legacy_console = Some (Exception encode_error)
   \<and> select_fetcher live_config legacy_console
       = (Fetch_simulated_costs,
          [Print_attempting, Called Fetch_aws_costs, Print_aws_error encode_error,
           Error_dialog ''AWS Credentials Error'' (encode_error @ simulated_instead_text)])
   \<and> fst (main live_config legacy_console None)
       = Some (start (UpdateScheduler Fetch_simulated_costs 300))
   \<and> tick (start (UpdateScheduler Fetch_simulated_costs 300)) = Some Fetch_simulated_costs
   \<and> select_fetcher live_config credited_account
       = (Fetch_aws_costs,
          [Print_attempting, Called Fetch_aws_costs, Print_connected (Finite 100)])"
proof -
  have live: "live_mode live_config"
    by (simp add: live_mode_def live_config_def)
  have probe: "fetch_aws_costs legacy_console
       = Inr \<lparr>month_to_date = Finite 100,
              top_services = [(''Amazon S3'', Finite 60, 3), (''AWS Lambda'', Finite 40, 3)],
              last_updated = 0\<rparr>"
    by code_simp
  have raises: "emoji_print legacy_console = Some (Exception encode_error)"
    by (simp add: legacy_console_def)
  from select_fetcher_live_unprintable [OF live raises probe]
  have selected: "select_fetcher live_config legacy_console
       = (Fetch_simulated_costs,
          [Print_attempting, Called Fetch_aws_costs, Print_aws_error encode_error,
           Error_dialog ''AWS Credentials Error'' (encode_error @ simulated_instead_text)])"
    by simp
  have started: "fst (main live_config legacy_console None)
       = Some (start (UpdateScheduler Fetch_simulated_costs 300))"
    unfolding main_def selected by (simp add: live_config_def)
  have ticks: "tick (start (UpdateScheduler Fetch_simulated_costs 300)) = Some Fetch_simulated_costs"
    by (rule tick_started)
  have printable: "select_fetcher live_config credited_account
       = (Fetch_aws_costs,
          [Print_attempting, Called Fetch_aws_costs, Print_connected (Finite 100)])"
    by code_simp
  from live probe raises selected started ticks printable show ?thesis
    by - (intro conjI; assumption)
qed

text \<open>
  C4. \<open>fetch_service_activity\<close> returns a dictionary with an entry for each requested
  name, whatever happens (the function has no exceptional result). When the capability
  is available, the entry of a name is the count of its lookup, 0 when that lookup
  raised, whatever the other lookups did (for a name requested more than once, of its
  last lookup). When the capability is not available, every entry is 0.
\<close>

theorem C4_activity_failure_isolation:
  "dom (fetch_service_activity w names) = set names
   \<and> (cloudtrail_available w \<longrightarrow>
        (\<forall>j < length names. names ! j \<notin> set (drop (Suc j) names) \<longrightarrow>
           fetch_service_activity w names (names ! j)
             = Some (case lookup_events w j (event_source_of (names ! j)) of
                       Inl e \<Rightarrow> 0
                     | Inr events \<Rightarrow> int events)))
   \<and> (\<not> cloudtrail_available w \<longrightarrow>
        (\<forall>name \<in> set names. fetch_service_activity w names name = Some 0))"
proof (intro conjI impI allI ballI)
  show "dom (fetch_service_activity w names) = set names"
  proof (cases "cloudtrail_available w")
    case True
    then show ?thesis
      by (simp add: fetch_service_activity_available dom_activity_loop)
  next
    case False
    then show ?thesis
      by (auto simp: fetch_service_activity_unavailable zero_activity_apply dom_def)
  qed
  show "fetch_service_activity w names (names ! j)
             = Some (case lookup_events w j (event_source_of (names ! j)) of
                       Inl e \<Rightarrow> 0
                     | Inr events \<Rightarrow> int events)"
    if "cloudtrail_available w" "j < length names" "names ! j \<notin> set (drop (Suc j) names)" for j
    using activity_loop_nth [OF that(2,3), of w 0 Map.empty] that(1)
    by (simp add: fetch_service_activity_available lookup_count_def)
  show "fetch_service_activity w names name = Some 0"
    if "\<not> cloudtrail_available w" "name \<in> set names" for name
    using that by (simp add: fetch_service_activity_unavailable zero_activity_apply)
qed

text \<open>
  One failing lookup among five: that entry is 0, the other four keep their counts;
  without boto3 all five are 0.
\<close>

theorem C4_activity_failure_isolation_witness:
  "cloudtrail_available throttled_trail
   \<and> lookup_events throttled_trail 2 (event_source_of (five_services ! 2))
       = Inl (Exception ''ThrottlingException'')
   \<and> fetch_service_activity throttled_trail five_services (five_services ! 2) = Some 0
   \<and> map (fetch_service_activity throttled_trail five_services) five_services
       = [Some 10, Some 11, Some 0, Some 13, Some 14]
   \<and> \<not> cloudtrail_available no_boto3
   \<and> map (fetch_service_activity no_boto3 five_services) five_services
       = [Some 0, Some 0, Some 0, Some 0, Some 0]"
proof -
  have available: "cloudtrail_available throttled_trail"
    by (simp add: cloudtrail_available_def throttled_trail_def credited_account_def)
  have failing: "lookup_events throttled_trail 2 (event_source_of (five_services ! 2))
       = Inl (Exception ''ThrottlingException'')"
    by (simp add: throttled_trail_def)
  have last: "five_services ! 2 \<notin> set (drop (Suc 2) five_services)"
    by (simp add: five_services_def)
  have len: "2 < length five_services"
    by (simp add: five_services_def)
  from C4_activity_failure_isolation [of throttled_trail five_services] available len last
  have "fetch_service_activity throttled_trail five_services (five_services ! 2)
      = Some (case lookup_events throttled_trail 2 (event_source_of (five_services ! 2)) of
                       Inl e \<Rightarrow> 0
                     | Inr events \<Rightarrow> int events)"
    by blast
  then have isolated: "fetch_service_activity throttled_trail five_services (five_services ! 2) = Some 0"
    by (simp only: failing sum.case)
  have batch: "map (fetch_service_activity throttled_trail five_services) five_services
       = [Some 10, Some 11, Some 0, Some 13, Some 14]"
    by code_simp
  have unavailable: "\<not> cloudtrail_available no_boto3"
    by (simp add: cloudtrail_available_def no_boto3_def)
  have zeros: "map (fetch_service_activity no_boto3 five_services) five_services
       = [Some 0, Some 0, Some 0, Some 0, Some 0]"
    by code_simp
  from available failing isolated batch unavailable zeros show ?thesis
    by - (intro conjI; assumption)
qed

text \<open>
  C5, amended. In every snapshot a source returns (the three fetchers \<open>main\<close> can
  select, \<open>fetch_cloudwatch_billing_metrics\<close> and \<open>fetch_aws_costs_before_credits\<close>),
  \<open>top_services\<close> is in descending order of cost, equal costs allowed, and has at most
  ten entries (the default limit, with which every source calls the ranker).
\<close>

theorem C5_top_services_descending:
  "(run_fetcher f w = Inr d \<or> fetch_cloudwatch_billing_metrics w = Inr d
      \<or> fetch_aws_costs_before_credits w = Inr d) \<Longrightarrow>
     descending (ranking d) \<and> int (length (top_services d)) \<le> default_limit"
proof -
  assume "run_fetcher f w = Inr d \<or> fetch_cloudwatch_billing_metrics w = Inr d
      \<or> fetch_aws_costs_before_credits w = Inr d"
  then consider (simulated) "d = as_doubles (fetch_simulated_costs w)"
    | (live) "fetch_november_costs w = Inr d \<or> fetch_cloudwatch_billing_metrics w = Inr d
        \<or> fetch_aws_costs_before_credits w = Inr d"
    by (cases f) (auto simp: fetch_aws_costs_def split: sum.splits)
  then show ?thesis
  proof cases
    case simulated
    have "ranking (fetch_simulated_costs w)
        = get_top_services (randomize w 0 simulated_service_costs) default_limit"
      by (simp add: ranking_def fetch_simulated_costs_def Let_def ranking_simulated_activity)
    with ranked_ok [of "randomize w 0 simulated_service_costs"] show ?thesis
      unfolding simulated ranking_as_doubles descending_as_doubles length_top_services_as_doubles
      by (simp flip: length_ranking)
  next
    case live
    then have "\<exists>xs. ranking d = get_top_services xs default_limit"
      using fetch_november_costs_Inr [of w d] fetch_cloudwatch_billing_metrics_Inr [of w d]
        fetch_aws_costs_before_credits_Inr [of w d]
      by auto
    then obtain xs where "ranking d = get_top_services xs default_limit" ..
    with ranked_ok [of xs] show ?thesis
      by (simp flip: length_ranking)
  qed
qed

text \<open>
  C5 as stated fails on equal costs: with every variation 1 the simulated source lists
  three services at 0.01 each, one after the other.
\<close>

theorem C5_strictly_descending_counterexample:
  "ranking (fetch_simulated_costs even_draws) =
      [(''AWS WAF'', 148/100), (''AWS Amplify'', 34/100), (''AWS Cost Explorer'', 24/100),
       (''Amazon EC2 Container Registry (ECR)'', 4/100), (''Amazon Bedrock AgentCore'', 1/100),
       (''Amazon S3'', 1/100), (''Amazon CloudWatch'', 1/100)]
   \<and> \<not> strictly_descending (ranking (fetch_simulated_costs even_draws))"
proof -
  have r: "ranking (fetch_simulated_costs even_draws) =
      [(''AWS WAF'', 148/100), (''AWS Amplify'', 34/100), (''AWS Cost Explorer'', 24/100),
       (''Amazon EC2 Container Registry (ECR)'', 4/100), (''Amazon Bedrock AgentCore'', 1/100),
       (''Amazon S3'', 1/100), (''Amazon CloudWatch'', 1/100)]"
    by code_simp
  show ?thesis
    unfolding r by (simp add: strictly_descending_def)
qed

theorem C5_top_services_descending_witness:
  "run_fetcher Fetch_aws_costs credited_account
     = Inr \<lparr>month_to_date = Finite 100,
            top_services = [(''Amazon S3'', Finite 60, 3), (''AWS Lambda'', Finite 40, 3)],
            last_updated = 0\<rparr>
   \<and> descending (ranking \<lparr>month_to_date = Finite 100,
            top_services = [(''Amazon S3'', Finite 60, 3), (''AWS Lambda'', Finite 40, 3)],
            last_updated = 0\<rparr>)"
proof -
  have run: "run_fetcher Fetch_aws_costs credited_account
     = Inr \<lparr>month_to_date = Finite 100,
            top_services = [(''Amazon S3'', Finite 60, 3), (''AWS Lambda'', Finite 40, 3)],
            last_updated = 0\<rparr>"
    by code_simp
  from C5_top_services_descending [OF disjI1, OF run] run show ?thesis
    by simp
qed

text \<open>
  C6, amended. In every run of \<open>fetch_simulated_costs\<close> whose variations lie in
  \<open>[0.9, 1.1]\<close>, \<open>month_to_date\<close> lies within 10 percent of the base total, and the
  cost of every service lies within 10 percent of its base cost up to the rounding to
  cents: it is at least \<open>0.9 * base - 0.005\<close> and at most \<open>1.1 * base + 0.005\<close>; for
  every service but AWS WAF it lies within 10 percent of the base cost exactly.
\<close>

theorem C6_simulated_costs_near_base:
  assumes "draws_in_range w"
  shows "within_ten_percent base_total (month_to_date (fetch_simulated_costs w))
     \<and> (\<forall>(name, cost) \<in> set (ranking (fetch_simulated_costs w)).
          \<exists>base. map_of simulated_service_costs name = Some base
             \<and> 9/10 * base - 1/200 \<le> cost \<and> cost \<le> 11/10 * base + 1/200
             \<and> (name \<noteq> ''AWS WAF'' \<longrightarrow> within_ten_percent base cost))"
  using simulated_total_within [OF assms] simulated_entry_near_base [OF assms]
  unfolding set_ranking_fetch_simulated_costs by blast

text \<open>With every variation 1 the total is the base total, 2.13.\<close>

theorem C6_simulated_costs_near_base_witness:
  "draws_in_range even_draws
   \<and> month_to_date (fetch_simulated_costs even_draws) = 213/100
   \<and> within_ten_percent base_total (month_to_date (fetch_simulated_costs even_draws))"
proof -
  have h: "draws_in_range even_draws"
    by (simp add: draws_in_range_def even_draws_def)
  have "month_to_date (fetch_simulated_costs even_draws) = 213/100"
    by code_simp
  moreover from C6_simulated_costs_near_base [OF h]
  have "within_ten_percent base_total (month_to_date (fetch_simulated_costs even_draws))"
    by (rule conjunct1)
  ultimately show ?thesis
    using h by (simp only: simp_thms)
qed

text \<open>
  C6 as stated fails for the most expensive service: with the variation 0.901 the cost of
  AWS WAF is \<open>round(1.48 * 0.901, 2) = 1.33\<close>, below \<open>0.9 * 1.48 = 1.332\<close>.
\<close>

theorem C6_each_cost_within_ten_percent_counterexample:
  "draws_in_range low_draws
   \<and> (''AWS WAF'', 133/100) \<in> set (ranking (fetch_simulated_costs low_draws))
   \<and> map_of simulated_service_costs ''AWS WAF'' = Some (148/100)
   \<and> \<not> within_ten_percent (148/100) (133/100)"
proof -
  have "draws_in_range low_draws"
    by (simp add: draws_in_range_def low_draws_def)
  moreover have "ranking (fetch_simulated_costs low_draws) =
      [(''AWS WAF'', 133/100), (''AWS Amplify'', 31/100), (''AWS Cost Explorer'', 22/100),
       (''Amazon EC2 Container Registry (ECR)'', 4/100), (''Amazon Bedrock AgentCore'', 1/100),
       (''Amazon S3'', 1/100), (''Amazon CloudWatch'', 1/100)]"
    by code_simp
  moreover have "\<not> within_ten_percent (148/100) (133/100)"
    by (simp add: within_ten_percent_def)
  ultimately show ?thesis
    by (simp add: base_costs)
qed

text \<open>
  C7. No source hands the ranker an entry of a service whose aggregated cost is not above
  the negligible threshold. The threshold is the double \<open>0.001\<close> of the source, which is
  above one thousandth, and the aggregated cost is the sum of doubles the source
  computes, in the order of the ledger. For each source the breakdown handed to
  \<open>get_top_services\<close> is named, and each of its entries is charged:
  \<^item> the simulated source (variations in range): every cost is above the threshold;
  \<^item> \<open>fetch_cost_explorer_services\<close> and \<open>fetch_november_costs\<close>: the sum of the
    service's amounts over all days is above the threshold;
  \<^item> \<open>fetch_aws_costs_before_credits\<close>: the sum of the service's positive "Usage"
    amounts is above the threshold;
  \<^item> \<open>fetch_cloudwatch_billing_metrics\<close>: the service's latest metric is above the
    threshold, or the entry comes from the ledger and is charged there.
\<close>

theorem C7_no_negligible_entry_ranked:
  "one_thousandth < negligible_threshold
   \<and> (draws_in_range w \<longrightarrow>
      ranking (fetch_simulated_costs w)
        = get_top_services (randomize w 0 simulated_service_costs) default_limit
      \<and> (\<forall>entry \<in> set (randomize w 0 simulated_service_costs).
            Finite (snd entry) > negligible_threshold))
   \<and> (\<forall>entry \<in> set (fetch_cost_explorer_services w None None).
        \<exists>response. get_cost_and_usage w (service_query w) = Inr response
           \<and> charged (service_total w response) entry)
   \<and> (fetch_november_costs w = Inr d1 \<longrightarrow>
        (\<exists>response m. get_cost_and_usage w november_query = Inr response
           \<and> service_results_loop w response [] = Inr m
           \<and> ranking d1 = get_top_services (charged_services m) default_limit
           \<and> (\<forall>entry \<in> set (charged_services m). charged (service_total w response) entry)))
   \<and> (fetch_aws_costs_before_credits w = Inr d2 \<longrightarrow>
        (\<exists>response. get_cost_and_usage w (usage_query w) = Inr response
           \<and> ranking d2
                = get_top_services (charged_services (usage_results_loop w response [])) default_limit
           \<and> (\<forall>entry \<in> set (charged_services (usage_results_loop w response [])).
                 charged (usage_by_service w response) entry)))
   \<and> (fetch_cloudwatch_billing_metrics w = Inr d3 \<longrightarrow>
        (\<exists>datapoints. get_metric_statistics w None = Inr datapoints
           \<and> ranking d3 = get_top_services (billing_breakdown w datapoints) default_limit
           \<and> (\<forall>entry \<in> set (billing_breakdown w datapoints).
                 metric_charged w entry
                 \<or> (\<exists>response. get_cost_and_usage w (service_query w) = Inr response
                       \<and> charged (service_total w response) entry))))"
proof (intro conjI impI ballI)
  show "one_thousandth < negligible_threshold"
    by (rule threshold_above_one_thousandth)
  show "ranking (fetch_simulated_costs w)
        = get_top_services (randomize w 0 simulated_service_costs) default_limit"
    by (simp add: ranking_def fetch_simulated_costs_def Let_def ranking_simulated_activity)
  show "Finite (snd entry) > negligible_threshold"
    if "draws_in_range w" "entry \<in> set (randomize w 0 simulated_service_costs)" for entry
    using that by (rule simulated_charged)
  show "\<exists>response. get_cost_and_usage w (service_query w) = Inr response
           \<and> charged (service_total w response) entry"
    if "entry \<in> set (fetch_cost_explorer_services w None None)" for entry
    using that by (rule fetch_cost_explorer_services_charged)
  show "\<exists>response m. get_cost_and_usage w november_query = Inr response
           \<and> service_results_loop w response [] = Inr m
           \<and> ranking d1 = get_top_services (charged_services m) default_limit
           \<and> (\<forall>entry \<in> set (charged_services m). charged (service_total w response) entry)"
    if "fetch_november_costs w = Inr d1"
    using fetch_november_costs_Inr [OF that] service_results_loop_charged by blast
  show "\<exists>response. get_cost_and_usage w (usage_query w) = Inr response
           \<and> ranking d2
                = get_top_services (charged_services (usage_results_loop w response [])) default_limit
           \<and> (\<forall>entry \<in> set (charged_services (usage_results_loop w response [])).
                 charged (usage_by_service w response) entry)"
    if "fetch_aws_costs_before_credits w = Inr d2"
    using fetch_aws_costs_before_credits_Inr [OF that] usage_results_loop_charged by blast
  show "\<exists>datapoints. get_metric_statistics w None = Inr datapoints
           \<and> ranking d3 = get_top_services (billing_breakdown w datapoints) default_limit
           \<and> (\<forall>entry \<in> set (billing_breakdown w datapoints).
                 metric_charged w entry
                 \<or> (\<exists>response. get_cost_and_usage w (service_query w) = Inr response
                       \<and> charged (service_total w response) entry))"
    if "fetch_cloudwatch_billing_metrics w = Inr d3"
    using fetch_cloudwatch_billing_metrics_Inr [OF that] billing_breakdown_charged by blast
qed

text \<open>
  In the account with billing metrics every source returns; the Lambda line of \<open>1/4096\<close>
  is in no breakdown. In the account with the six daily lines the total the machine
  computes is above the threshold, and the service is listed, with the cost 0.00.
\<close>

theorem C7_no_negligible_entry_ranked_witness:
  "draws_in_range billing_account
   \<and> (''Amazon S3'', 1/100) \<in> set (randomize billing_account 0 simulated_service_costs)
   \<and> negligible_threshold < Finite (snd (''Amazon S3'', 1/100 :: real))
   \<and> fetch_cost_explorer_services billing_account None None
       = [(''Amazon Simple Storage Service'', Finite (15/2))]
   \<and> fetch_november_costs billing_account
       = Inr \<lparr>month_to_date = Finite (15/2),
              top_services = [(''Amazon Simple Storage Service'', Finite (15/2), 0)],
              last_updated = 0\<rparr>
   \<and> fetch_aws_costs_before_credits billing_account
       = Inr \<lparr>month_to_date = Finite 100,
              top_services = [(''Amazon S3'', Finite 60, 3), (''AWS Lambda'', Finite 40, 3)],
              last_updated = 0\<rparr>
   \<and> fetch_cloudwatch_billing_metrics billing_account
       = Inr \<lparr>month_to_date = Finite (617/50),
              top_services = [(''Amazon S3'', Finite (15/2), 3)],
              last_updated = 0\<rparr>
   \<and> service_total six_lines_account six_lines_ledger ''X'' = Finite (4611686018427389 / 2 ^ 62)
   \<and> negligible_threshold < Finite (4611686018427389 / 2 ^ 62)
   \<and> fetch_cost_explorer_services six_lines_account None None = [(''X'', Finite 0)]"
proof -
  have draws: "draws_in_range billing_account"
    by (simp add: draws_in_range_def billing_account_def credited_account_def)
  have ledger: "fetch_cost_explorer_services billing_account None None
       = [(''Amazon Simple Storage Service'', Finite (15/2))]"
    by code_simp
  have november: "fetch_november_costs billing_account
       = Inr \<lparr>month_to_date = Finite (15/2),
              top_services = [(''Amazon Simple Storage Service'', Finite (15/2), 0)],
              last_updated = 0\<rparr>"
    by code_simp
  have usage: "fetch_aws_costs_before_credits billing_account
       = Inr \<lparr>month_to_date = Finite 100,
              top_services = [(''Amazon S3'', Finite 60, 3), (''AWS Lambda'', Finite 40, 3)],
              last_updated = 0\<rparr>"
    by code_simp
  have billing: "fetch_cloudwatch_billing_metrics billing_account
       = Inr \<lparr>month_to_date = Finite (617/50),
              top_services = [(''Amazon S3'', Finite (15/2), 3)],
              last_updated = 0\<rparr>"
    by code_simp
  have listed: "(''Amazon S3'', 1/100) \<in> set (randomize billing_account 0 simulated_service_costs)"
    by code_simp
  from C7_no_negligible_entry_ranked [of billing_account] draws
  have "\<forall>entry \<in> set (randomize billing_account 0 simulated_service_costs).
         Finite (snd entry) > negligible_threshold"
    by blast
  with listed have above: "negligible_threshold < Finite (snd (''Amazon S3'', 1/100 :: real))"
    by blast
  have six: "service_total six_lines_account six_lines_ledger ''X''
       = Finite (4611686018427389 / 2 ^ 62)"
    by code_simp
  have six_above: "negligible_threshold < Finite (4611686018427389 / 2 ^ 62)"
    by (simp add: negligible_threshold_def Finite_less_iff)
  have six_listed: "fetch_cost_explorer_services six_lines_account None None = [(''X'', Finite 0)]"
    by code_simp
  from draws listed above ledger november usage billing six six_above six_listed show ?thesis
    by - (intro conjI; assumption)
qed




text \<open>
  C9, amended. A name found in \<open>SERVICE_TO_EVENT_SOURCE\<close> gets the mapped identifier
  unchanged. For any other name the identifier is derived and never fails: the name is
  lower-cased, every occurrence of "amazon " and then every occurrence of "aws " is
  removed, wherever it stands, the spaces are removed and ".amazonaws.com" is appended.
  The result has no space, and it is the identifier of the spec's words (prefixes
  stripped) whenever the two strings occur in front only.
\<close>

theorem C9_event_source_derivation:
  "(\<forall>es. map_of SERVICE_TO_EVENT_SOURCE service_name = Some es \<longrightarrow>
       event_source_of service_name = es)
   \<and> (map_of SERVICE_TO_EVENT_SOURCE service_name = None \<longrightarrow>
        event_source_of service_name
          = without_spaces
              (replace_from ''aws '' [] (replace_from ''amazon '' [] (lower service_name)))
            @ ''.amazonaws.com''
        \<and> CHR '' '' \<notin> set (event_source_of service_name)
        \<and> (prefixes_in_front_only service_name \<longrightarrow>
              event_source_of service_name = claimed_event_source service_name))"
proof (intro conjI impI allI)
  show "event_source_of service_name = es"
    if "map_of SERVICE_TO_EVENT_SOURCE service_name = Some es" for es
    using that mapped_nonempty [OF map_of_SomeD [OF that]]
    by (simp add: event_source_of_def)
  assume absent: "map_of SERVICE_TO_EVENT_SOURCE service_name = None"
  then have e: "event_source_of service_name = derived_event_source service_name"
    by (simp add: event_source_of_def)
  show "event_source_of service_name
          = without_spaces
              (replace_from ''aws '' [] (replace_from ''amazon '' [] (lower service_name)))
            @ ''.amazonaws.com''"
    by (simp only: e derived_event_source_eq)
  show "CHR '' '' \<notin> set (event_source_of service_name)"
    by (simp add: e derived_event_source_eq without_spaces_def)
  show "event_source_of service_name = claimed_event_source service_name"
    if "prefixes_in_front_only service_name"
    using derived_agrees [OF that] by (simp only: e)
qed

text \<open>A mapped name and an unmapped name with its prefix in front.\<close>

theorem C9_event_source_derivation_witness:
  "map_of SERVICE_TO_EVENT_SOURCE ''AWS Fargate'' = Some ''ecs.amazonaws.com''
   \<and> event_source_of ''AWS Fargate'' = ''ecs.amazonaws.com''
   \<and> map_of SERVICE_TO_EVENT_SOURCE ''AWS WAF'' = None
   \<and> prefixes_in_front_only ''AWS WAF''
   \<and> claimed_event_source ''AWS WAF'' = ''waf.amazonaws.com''
   \<and> event_source_of ''AWS WAF'' = ''waf.amazonaws.com''"
proof -
  have mapped: "map_of SERVICE_TO_EVENT_SOURCE ''AWS Fargate'' = Some ''ecs.amazonaws.com''"
    by code_simp
  have unmapped: "map_of SERVICE_TO_EVENT_SOURCE ''AWS WAF'' = None"
    by code_simp
  have front: "prefixes_in_front_only ''AWS WAF''"
    by code_simp
  have claimed: "claimed_event_source ''AWS WAF'' = ''waf.amazonaws.com''"
    by code_simp
  from C9_event_source_derivation [of "''AWS Fargate''"] mapped
  have fargate: "event_source_of ''AWS Fargate'' = ''ecs.amazonaws.com''"
    by blast
  from C9_event_source_derivation [of "''AWS WAF''"] unmapped front
  have "event_source_of ''AWS WAF'' = claimed_event_source ''AWS WAF''"
    by blast
  then have waf: "event_source_of ''AWS WAF'' = ''waf.amazonaws.com''"
    by (simp only: claimed)
  from mapped fargate unmapped front claimed waf show ?thesis
    by - (intro conjI; assumption)
qed

text \<open>
  C9 as stated fails for a name with "AWS " in the middle: \<open>replace\<close> removes it
  there too, where stripping a prefix would leave it.
\<close>

theorem C9_prefix_only_counterexample:
  "map_of SERVICE_TO_EVENT_SOURCE ''Savings Plans for AWS Compute usage'' = None
   \<and> event_source_of ''Savings Plans for AWS Compute usage''
       = ''savingsplansforcomputeusage.amazonaws.com''
   \<and> claimed_event_source ''Savings Plans for AWS Compute usage''
       = ''savingsplansforawscomputeusage.amazonaws.com''
   \<and> event_source_of ''Savings Plans for AWS Compute usage''
       \<noteq> claimed_event_source ''Savings Plans for AWS Compute usage''"
  by code_simp

text \<open>
  C10. In every run of \<open>fetch_simulated_costs\<close> the ranking lists the names of the
  seven services of the base table, each once (seven is below the limit of ten), and
  \<open>month_to_date\<close> is the sum of the costs listed in the ranking, rounded to 2
  decimals.
\<close>

theorem C10_simulated_total_is_sum_of_breakdown:
  "mset (map fst (ranking (fetch_simulated_costs w))) = mset (map fst simulated_service_costs)
   \<and> length (top_services (fetch_simulated_costs w)) = 7
   \<and> length simulated_service_costs = 7
   \<and> month_to_date (fetch_simulated_costs w)
       = round2 (sum_list (map snd (ranking (fetch_simulated_costs w))))"
proof -
  have names: "mset (map fst (ranking (fetch_simulated_costs w))) = mset (map fst simulated_service_costs)"
    unfolding ranking_fetch_simulated_costs
    by (metis mset_map mset_sorted_reverse randomize_names)
  have "length (ranking (fetch_simulated_costs w)) = 7"
    unfolding ranking_fetch_simulated_costs
    by (simp add: length_sorted_reverse length_randomize simulated_service_costs_def)
  then have len: "length (top_services (fetch_simulated_costs w)) = 7"
    by (simp add: ranking_def)
  have total: "month_to_date (fetch_simulated_costs w)
       = round2 (sum_list (map snd (ranking (fetch_simulated_costs w))))"
    unfolding ranking_fetch_simulated_costs sum_list_sorted_reverse
    by (simp add: fetch_simulated_costs_def Let_def)
  from names len total show ?thesis
    by (simp add: simulated_service_costs_def)
qed

end
